theory Spec2Isabelle
  imports Complex_Main "HOL-Library.Signed_Division"
begin

section \<open>Geo utility (pkg/geo/geo.go)\<close>

text \<open>
  Go's \<^verbatim>\<open>float64\<close> is modelled by \<^typ>\<open>real\<close>: the functions below are the
  formulas of the source evaluated in exact arithmetic (no rounding, no NaN, no
  infinities). The library functions of package \<^verbatim>\<open>math\<close> that the source calls are
  written out on the reals.
\<close>

text \<open>\<^verbatim>\<open>math.Trunc\<close>: the integer part, rounding toward zero.\<close>

definition math_Trunc :: "real \<Rightarrow> int" where
  "math_Trunc x = (if x < 0 then \<lceil>x\<rceil> else \<lfloor>x\<rfloor>)"

text \<open>\<^verbatim>\<open>math.Mod(x, y)\<close>: the floating-point remainder of \<open>x / y\<close>; the result has
  the sign of \<open>x\<close> and magnitude less than \<open>y\<close>.\<close>

definition math_Mod :: "real \<Rightarrow> real \<Rightarrow> real" where
  "math_Mod x y = x - y * of_int (math_Trunc (x / y))"

text \<open>\<^verbatim>\<open>math.Round\<close>: the nearest integer, rounding half away from zero.\<close>

definition math_Round :: "real \<Rightarrow> int" where
  "math_Round x = (if x < 0 then - \<lfloor>- x + 1 / 2\<rfloor> else \<lfloor>x + 1 / 2\<rfloor>)"

text \<open>\<^verbatim>\<open>math.Atan2(y, x)\<close>: the arc tangent of \<open>y / x\<close>, using the signs of the two
  to determine the quadrant of the result.\<close>

definition math_Atan2 :: "real \<Rightarrow> real \<Rightarrow> real" where
  "math_Atan2 y x =
     (if 0 < x then arctan (y / x)
      else if x < 0 then (if 0 \<le> y then arctan (y / x) + pi else arctan (y / x) - pi)
      else if 0 < y then pi / 2
      else if y < 0 then - (pi / 2)
      else 0)"

text \<open>\<^verbatim>\<open>CalculateDistance\<close>: the haversine formula, Earth radius 6371 km.
  \<^verbatim>\<open>math.Pow(x, 2)\<close> is the square.\<close>

definition CalculateDistance :: "real \<Rightarrow> real \<Rightarrow> real \<Rightarrow> real \<Rightarrow> real" where
  "CalculateDistance lat1 lon1 lat2 lon2 =
     (let R = 6371;
          la1 = lat1 * pi / 180;
          lo1 = lon1 * pi / 180;
          la2 = lat2 * pi / 180;
          lo2 = lon2 * pi / 180;
          dlat = la2 - la1;
          dlon = lo2 - lo1;
          a = (sin (dlat / 2))\<^sup>2 + cos la1 * cos la2 * (sin (dlon / 2))\<^sup>2;
          c = 2 * math_Atan2 (sqrt a) (sqrt (1 - a))
      in R * c)"

text \<open>\<^verbatim>\<open>CalculateBearing\<close>: the initial bearing from point 1 to point 2, in degrees.\<close>

definition CalculateBearing :: "real \<Rightarrow> real \<Rightarrow> real \<Rightarrow> real \<Rightarrow> real" where
  "CalculateBearing lat1 lon1 lat2 lon2 =
     (let la1 = lat1 * pi / 180;
          lo1 = lon1 * pi / 180;
          la2 = lat2 * pi / 180;
          lo2 = lon2 * pi / 180;
          dlon = lo2 - lo1;
          y = sin dlon * cos la2;
          x = cos la1 * sin la2 - sin la1 * cos la2 * cos dlon;
          bearing = math_Atan2 y x * 180 / pi
      in if bearing < 0 then bearing + 360 else bearing)"

text \<open>\<^verbatim>\<open>BearingToDirection\<close>, in its three steps: the normalisation of the bearing
  (\<^verbatim>\<open>math.Mod\<close>, then \<open>+ 360\<close> when negative), the index
  \<^verbatim>\<open>int(math.Round(bearing/22.5)) % 16\<close> (Go's \<^verbatim>\<open>%\<close> truncates like
  \<open>smod\<close>), and the lookup in the table of the 16 labels.\<close>

definition directions :: "string list" where
  "directions =
     [''N'', ''NNE'', ''NE'', ''ENE'',
      ''E'', ''ESE'', ''SE'', ''SSE'',
      ''S'', ''SSW'', ''SW'', ''WSW'',
      ''W'', ''WNW'', ''NW'', ''NNW'']"

definition normalizeBearing :: "real \<Rightarrow> real" where
  "normalizeBearing bearing =
     (let b = math_Mod bearing 360 in if b < 0 then b + 360 else b)"

definition directionIndex :: "real \<Rightarrow> int" where
  "directionIndex bearing = math_Round (normalizeBearing bearing / 22.5) smod 16"

definition BearingToDirection :: "real \<Rightarrow> string" where
  "BearingToDirection bearing = directions ! nat (directionIndex bearing)"

definition IsValidLatitude :: "real \<Rightarrow> bool" where
  "IsValidLatitude lat \<longleftrightarrow> lat \<ge> -90 \<and> lat \<le> 90"

definition IsValidLongitude :: "real \<Rightarrow> bool" where
  "IsValidLongitude lon \<longleftrightarrow> lon \<ge> -180 \<and> lon \<le> 180"

definition IsValidCoordinate :: "real \<Rightarrow> real \<Rightarrow> bool" where
  "IsValidCoordinate lat lon \<longleftrightarrow> IsValidLatitude lat \<and> IsValidLongitude lon"

section \<open>Tracking engine and poll cycle (package monitor)\<close>

text \<open>
  \<^verbatim>\<open>time.Time\<close> is an instant in nanoseconds on one time line and
  \<^verbatim>\<open>time.Duration\<close> a number of nanoseconds (an \<^verbatim>\<open>int64\<close>).
  \<^verbatim>\<open>Time.Sub\<close> saturates at the largest and smallest duration, as the library
  documents.
\<close>

type_synonym time = int
type_synonym Duration = int

definition maxDuration :: Duration where
  "maxDuration = 2 ^ 63 - 1"

definition minDuration :: Duration where
  "minDuration = - (2 ^ 63)"

definition Second :: Duration where
  "Second = 1000000000"

definition Minute :: Duration where
  "Minute = 60 * Second"

definition time_Sub :: "time \<Rightarrow> time \<Rightarrow> Duration" where
  "time_Sub t u =
     (let d = t - u
      in if d > maxDuration then maxDuration else if d < minDuration then minDuration else d)"

definition time_Add :: "time \<Rightarrow> Duration \<Rightarrow> time" where
  "time_Add t d = t + d"

definition time_Before :: "time \<Rightarrow> time \<Rightarrow> bool" where
  "time_Before t u \<longleftrightarrow> t < u"

text \<open>The fields of \<^verbatim>\<open>config.Config\<close> that the monitor reads.\<close>

record LocationConfig =
  Latitude :: real
  Longitude :: real

record NotificationConfig =
  Enabled :: bool
  NotifyOnCloserOnly :: bool
  ReNotifyAfter :: Duration

record Config =
  Location :: LocationConfig
  Notification :: NotificationConfig

text \<open>The fields of \<^verbatim>\<open>aircraft.Aircraft\<close> that the monitor reads.\<close>

record Aircraft =
  Icao :: string
  Call :: string
  Type :: string
  Alt :: int
  Lat :: real
  Long :: real
  Spd :: real
  Mil :: bool

record AircraftList =
  TotalAc :: int
  acList :: "Aircraft list"

record AircraftTracker =
  LastDistance :: real
  LastSeen :: time
  Notified :: bool

type_synonym history = "string \<rightharpoonup> AircraftTracker"

text \<open>The arguments of one call of \<^verbatim>\<open>Notifier.Send\<close>.\<close>

record SendCall =
  send_callsign :: string
  send_aircraftType :: string
  send_altitude :: int
  send_speed :: real
  send_distance :: real
  send_direction :: string
  send_previousDistance :: real

datatype monitor_error =
    FetchFailed string   \<comment> \<open>\<^verbatim>\<open>failed to fetch aircraft data: %w\<close>\<close>
  | SendFailed string    \<comment> \<open>\<^verbatim>\<open>failed to send notification: %w\<close>\<close>

text \<open>
  The monitor state: its configuration, the tracker map (the pointers of the Go map are
  owned by the map alone, so a tracker is updated by storing the updated record), the
  errors that \<^verbatim>\<open>fetchAndProcess\<close> has reported for single aircraft (call sign and
  error), and the state \<open>'w\<close> of everything outside the monitor: the feed, the
  notifier and the clock.
\<close>

record 'w Monitor =
  config :: Config
  aircraftHistory :: history
  errorLog :: "(string \<times> monitor_error) list"
  world :: 'w

text \<open>
  The collaborators, which the monitor holds as interfaces: \<^verbatim>\<open>Fetcher.Fetch\<close>,
  \<^verbatim>\<open>Notifier.Send\<close> (its result is the error, \<open>None\<close> for \<^verbatim>\<open>nil\<close>) and
  \<^verbatim>\<open>time.Now\<close>. Each may read and change the outside world.
\<close>

record 'w MonitorEnv =
  fetcher_Fetch :: "'w \<Rightarrow> (string + AircraftList) \<times> 'w"
  notifier_Send :: "SendCall \<Rightarrow> 'w \<Rightarrow> string option \<times> 'w"
  time_Now :: "'w \<Rightarrow> time \<times> 'w"

definition NewMonitorWithDeps :: "Config \<Rightarrow> 'w \<Rightarrow> 'w Monitor" where
  "NewMonitorWithDeps cfg w =
     \<lparr>config = cfg, aircraftHistory = Map.empty, errorLog = [], world = w\<rparr>"

text \<open>\<^verbatim>\<open>strconv.Itoa\<close> and the \<^verbatim>\<open>%d\<close> verb: the decimal digits of an integer.\<close>

definition digit_char :: "nat \<Rightarrow> char" where
  "digit_char d = char_of (48 + d)"

fun digits :: "nat \<Rightarrow> string" where
  "digits n = (if n < 10 then [digit_char n] else digits (n div 10) @ [digit_char (n mod 10)])"

declare digits.simps [simp del]

definition Itoa :: "int \<Rightarrow> string" where
  "Itoa n = (if n < 0 then CHR ''-'' # digits (nat (- n)) else digits (nat n))"

definition getAircraftIdentifier :: "Aircraft \<Rightarrow> string" where
  "getAircraftIdentifier ac =
     (if Icao ac \<noteq> [] then Icao ac
      else if Call ac \<noteq> [] then Call ac
      else Type ac @ ''_'' @ Itoa (Alt ac))"

definition calculateDistance :: "Config \<Rightarrow> real \<Rightarrow> real \<Rightarrow> real" where
  "calculateDistance cfg acLat acLong =
     (if Latitude (Location cfg) = 0 \<and> Longitude (Location cfg) = 0 then 0
      else CalculateDistance (Latitude (Location cfg)) (Longitude (Location cfg)) acLat acLong)"

definition calculateBearing :: "Config \<Rightarrow> real \<Rightarrow> real \<Rightarrow> real" where
  "calculateBearing cfg acLat acLong =
     (if Latitude (Location cfg) = 0 \<and> Longitude (Location cfg) = 0 then 0
      else CalculateBearing (Latitude (Location cfg)) (Longitude (Location cfg)) acLat acLong)"

text \<open>
  \<^verbatim>\<open>shouldNotifyAircraft\<close>, on the tracker map; \<open>now\<close> is the value that its call of
  \<^verbatim>\<open>time.Now()\<close> returns. The result is the decision and the map afterwards.
\<close>

definition shouldNotifyAircraft ::
  "Config \<Rightarrow> time \<Rightarrow> string \<Rightarrow> real \<Rightarrow> history \<Rightarrow> bool \<times> history" where
  "shouldNotifyAircraft cfg now aircraftID currentDistance h =
     (case h aircraftID of
        None \<Rightarrow>
          (True, h(aircraftID \<mapsto>
             \<lparr>LastDistance = currentDistance, LastSeen = now, Notified = True\<rparr>))
      | Some tracker \<Rightarrow>
          (let isGettingCloser = currentDistance < LastDistance tracker;
               shouldNotifyByTime =
                 (if ReNotifyAfter (Notification cfg) > 0
                  then time_Sub now (LastSeen tracker) > ReNotifyAfter (Notification cfg)
                  else False);
               tracker = tracker\<lparr>LastDistance := currentDistance, LastSeen := now\<rparr>
           in if NotifyOnCloserOnly (Notification cfg) then
                (if isGettingCloser \<or> shouldNotifyByTime
                 then (True, h(aircraftID \<mapsto> tracker\<lparr>Notified := True\<rparr>))
                 else (False, h(aircraftID \<mapsto> tracker)))
              else (True, h(aircraftID \<mapsto> tracker\<lparr>Notified := True\<rparr>))))"

text \<open>
  \<^verbatim>\<open>processAircraft\<close>: the result is the error (\<open>None\<close> for \<^verbatim>\<open>nil\<close>) and the
  monitor afterwards. The logger's \<^verbatim>\<open>Info\<close> line has no effect on the state.
\<close>

definition processAircraft ::
  "'w MonitorEnv \<Rightarrow> 'w Monitor \<Rightarrow> Aircraft \<Rightarrow> monitor_error option \<times> 'w Monitor" where
  "processAircraft env m ac =
     (let distance = calculateDistance (config m) (Lat ac) (Long ac);
          bearing = calculateBearing (config m) (Lat ac) (Long ac);
          direction = BearingToDirection bearing;
          aircraftID = getAircraftIdentifier ac;
          previousDistance =
            (case aircraftHistory m aircraftID of
               Some tracker \<Rightarrow> LastDistance tracker
             | None \<Rightarrow> 0);
          (now, w1) = time_Now env (world m);
          (shouldNotify, h) =
            shouldNotifyAircraft (config m) now aircraftID distance (aircraftHistory m);
          m1 = m\<lparr>aircraftHistory := h, world := w1\<rparr>
      in if Enabled (Notification (config m)) \<and> shouldNotify then
           (case notifier_Send env
                   \<lparr>send_callsign = Call ac, send_aircraftType = Type ac,
                    send_altitude = Alt ac, send_speed = Spd ac,
                    send_distance = distance, send_direction = direction,
                    send_previousDistance = previousDistance\<rparr> w1 of
              (Some err, w2) \<Rightarrow> (Some (SendFailed err), m1\<lparr>world := w2\<rparr>)
            | (None, w2) \<Rightarrow> (None, m1\<lparr>world := w2\<rparr>))
         else (None, m1))"

text \<open>
  The loop of \<^verbatim>\<open>fetchAndProcess\<close> over the fetched aircraft: an error of
  \<^verbatim>\<open>processAircraft\<close> is reported to the logger and the loop goes on.
\<close>

fun processAll :: "'w MonitorEnv \<Rightarrow> 'w Monitor \<Rightarrow> Aircraft list \<Rightarrow> 'w Monitor" where
  "processAll env m [] = m"
| "processAll env m (ac # acs) =
     (case processAircraft env m ac of
        (Some err, m') \<Rightarrow>
          processAll env (m'\<lparr>errorLog := errorLog m' @ [(Call ac, err)]\<rparr>) acs
      | (None, m') \<Rightarrow> processAll env m' acs)"

definition fetchAndProcess ::
  "'w MonitorEnv \<Rightarrow> 'w Monitor \<Rightarrow> monitor_error option \<times> 'w Monitor" where
  "fetchAndProcess env m =
     (case fetcher_Fetch env (world m) of
        (Inl err, w') \<Rightarrow> (Some (FetchFailed err), m\<lparr>world := w'\<rparr>)
      | (Inr al, w') \<Rightarrow> (None, processAll env (m\<lparr>world := w'\<rparr>) (acList al)))"

text \<open>
  \<^verbatim>\<open>cleanupAircraftHistory\<close>. The source ranges over the map and deletes the entry
  it is visiting when its \<^verbatim>\<open>LastSeen\<close> is before the cutoff; \<open>cleanupLoop\<close> is that
  loop over the keys in the order \<open>ks\<close> the range visits them. Go visits every entry
  of the map once in an unspecified order, and the result does not depend on the order
  (\<open>cleanupLoop_eq\<close> below), so \<open>cleanupEntries\<close> gives the map after the loop
  key by key.
\<close>

fun cleanupLoop :: "time \<Rightarrow> string list \<Rightarrow> history \<Rightarrow> history" where
  "cleanupLoop cutoffTime [] h = h"
| "cleanupLoop cutoffTime (aircraftID # ks) h =
     (case h aircraftID of
        Some tracker \<Rightarrow>
          (if time_Before (LastSeen tracker) cutoffTime
           then cleanupLoop cutoffTime ks (h(aircraftID := None))
           else cleanupLoop cutoffTime ks h)
      | None \<Rightarrow> cleanupLoop cutoffTime ks h)"

definition cleanupEntries :: "time \<Rightarrow> history \<Rightarrow> history" where
  "cleanupEntries cutoffTime h =
     (\<lambda>aircraftID.
        case h aircraftID of
          Some tracker \<Rightarrow>
            (if time_Before (LastSeen tracker) cutoffTime then None else Some tracker)
        | None \<Rightarrow> None)"

definition cleanupAircraftHistory :: "'w MonitorEnv \<Rightarrow> 'w Monitor \<Rightarrow> 'w Monitor" where
  "cleanupAircraftHistory env m =
     (let (now, w') = time_Now env (world m);
          cutoffTime = time_Add now (- 15 * Minute)
      in m\<lparr>aircraftHistory := cleanupEntries cutoffTime (aircraftHistory m), world := w'\<rparr>)"

text \<open>
  The operations of the monitor loop on the tracker map, and a run of them:
  a poll cycle, the processing of one aircraft (as the tests call it), a cleanup sweep.
\<close>

datatype monitor_op = Poll | Process Aircraft | Sweep

fun monitor_step :: "'w MonitorEnv \<Rightarrow> 'w Monitor \<Rightarrow> monitor_op \<Rightarrow> 'w Monitor" where
  "monitor_step env m Poll = snd (fetchAndProcess env m)"
| "monitor_step env m (Process ac) = snd (processAircraft env m ac)"
| "monitor_step env m Sweep = cleanupAircraftHistory env m"

definition monitor_run :: "'w MonitorEnv \<Rightarrow> 'w Monitor \<Rightarrow> monitor_op list \<Rightarrow> 'w Monitor" where
  "monitor_run env m ops = foldl (monitor_step env) m ops"

definition allNotified :: "history \<Rightarrow> bool" where
  "allNotified h \<longleftrightarrow> (\<forall>aircraftID tracker. h aircraftID = Some tracker \<longrightarrow> Notified tracker)"

section \<open>Polymorphic JSON fields (pkg/aircraft/types.go)\<close>

text \<open>
  \<^verbatim>\<open>UnmarshalJSON\<close> receives the bytes of one JSON value. They are modelled by the
  value that the scanner of \<^verbatim>\<open>encoding/json\<close> reads from them: a string literal with
  its (unquoted) contents, a number literal with its text, \<^verbatim>\<open>null\<close>, a boolean, an
  array or an object.
\<close>

datatype json_value = JNull | JBool bool | JNumber string | JString string | JArray | JObject

datatype decode_error =
    ErrSyntax            \<comment> \<open>\<^verbatim>\<open>strconv.ErrSyntax\<close>\<close>
  | ErrRange             \<comment> \<open>\<^verbatim>\<open>strconv.ErrRange\<close>\<close>
  | UnmarshalTypeError   \<comment> \<open>\<^verbatim>\<open>json.UnmarshalTypeError\<close>\<close>

text \<open>\<^verbatim>\<open>json.Unmarshal\<close> into a \<^verbatim>\<open>string\<close> variable that holds \<^verbatim>\<open>""\<close>: a string
  literal is stored, \<^verbatim>\<open>null\<close> leaves the variable as it is, anything else is a type
  error.\<close>

definition unmarshal_string :: "json_value \<Rightarrow> decode_error + string" where
  "unmarshal_string v =
     (case v of JString s \<Rightarrow> Inr s | JNull \<Rightarrow> Inr [] | _ \<Rightarrow> Inl UnmarshalTypeError)"

text \<open>\<^verbatim>\<open>strconv.Atoi\<close>, which is \<^verbatim>\<open>strconv.ParseInt(s, 10, 0)\<close> with a 64-bit
  \<^verbatim>\<open>int\<close>: an optional sign, then at least one decimal digit and nothing else.
  \<open>parseUint\<close> is the loop of \<^verbatim>\<open>strconv.ParseUint\<close> in base 10 over the
  characters, with the value so far: a character that is no digit is a syntax error, a
  value that leaves the unsigned 64-bit range a range error, whichever comes first.
  \<^verbatim>\<open>ParseInt\<close> then checks the signed 64-bit range.\<close>

definition isDigit :: "char \<Rightarrow> bool" where
  "isDigit c \<longleftrightarrow> (48::nat) \<le> of_char c \<and> of_char c \<le> (57::nat)"

definition digitValue :: "char \<Rightarrow> nat" where
  "digitValue c = of_char c - 48"

fun parseUint :: "nat \<Rightarrow> string \<Rightarrow> decode_error + nat" where
  "parseUint n [] = Inr n"
| "parseUint n (c # s) =
     (if \<not> isDigit c then Inl ErrSyntax
      else if n \<ge> (2 ^ 64 - 1) div 10 + 1 then Inl ErrRange
      else (let n1 = n * 10 + digitValue c
            in if n1 > 2 ^ 64 - 1 then Inl ErrRange else parseUint n1 s))"

definition Atoi :: "string \<Rightarrow> decode_error + int" where
  "Atoi s =
     (case s of
        [] \<Rightarrow> Inl ErrSyntax
      | c # r \<Rightarrow>
          (let neg = (c = CHR ''-'');
               ds = (if c = CHR ''-'' \<or> c = CHR ''+'' then r else s)
           in if ds = [] then Inl ErrSyntax
              else case parseUint 0 ds of
                     Inl err \<Rightarrow> Inl err
                   | Inr un \<Rightarrow>
                       if \<not> neg \<and> un \<ge> 2 ^ 63 then Inl ErrRange
                       else if neg \<and> un > 2 ^ 63 then Inl ErrRange
                       else Inr (if neg then - int un else int un)))"

text \<open>\<^verbatim>\<open>json.Unmarshal\<close> into an \<^verbatim>\<open>int\<close> variable that holds 0: a number literal
  is parsed with \<^verbatim>\<open>strconv.ParseInt(literal, 10, 64)\<close> and any failure is a type
  error; \<^verbatim>\<open>null\<close> leaves the variable as it is; anything else is a type error.\<close>

definition unmarshal_int :: "json_value \<Rightarrow> decode_error + int" where
  "unmarshal_int v =
     (case v of
        JNumber lit \<Rightarrow> (case Atoi lit of Inl e \<Rightarrow> Inl UnmarshalTypeError | Inr n \<Rightarrow> Inr n)
      | JNull \<Rightarrow> Inr 0
      | _ \<Rightarrow> Inl UnmarshalTypeError)"

text \<open>\<^verbatim>\<open>SqkValue.UnmarshalJSON\<close>: the result is the error, or the value stored in
  the receiver.\<close>

definition SqkValue_UnmarshalJSON :: "json_value \<Rightarrow> decode_error + int" where
  "SqkValue_UnmarshalJSON data =
     (case unmarshal_string data of
        Inr strVal \<Rightarrow>
          (if strVal = [] then Inr 0
           else (case Atoi strVal of Inl err \<Rightarrow> Inl err | Inr intVal \<Rightarrow> Inr intVal))
      | Inl _ \<Rightarrow>
          (case unmarshal_int data of Inl err \<Rightarrow> Inl err | Inr intVal \<Rightarrow> Inr intVal))"

text \<open>A decimal integer, as the specification of the squawk field means it: an
  optional sign followed by one or more decimal digits.\<close>

definition isDecimalInteger :: "string \<Rightarrow> bool" where
  "isDecimalInteger s =
     (case s of
        [] \<Rightarrow> False
      | c # r \<Rightarrow>
          if c = CHR ''-'' \<or> c = CHR ''+'' then r \<noteq> [] \<and> list_all isDigit r
          else list_all isDigit s)"

section \<open>Feed client (pkg/fetch/fetch.go)\<close>

text \<open>
  The feed client talks to the server through \<^verbatim>\<open>net/http\<close> and \<^verbatim>\<open>net/url\<close>. A URL
  is modelled by its parsed components, the query being the \<^verbatim>\<open>url.Values\<close> that
  \<^verbatim>\<open>u.Query()\<close> returns (a map from a key to its values; \<^verbatim>\<open>Set\<close> replaces the values
  of a key by one value, and \<^verbatim>\<open>Encode\<close> writes the keys in sorted order, so the map
  determines the query string).
\<close>

type_synonym url_values = "string \<rightharpoonup> string list"

record url =
  Scheme :: string
  Host :: string
  Path :: string
  Query :: url_values

definition Values_Set :: "string \<Rightarrow> string \<Rightarrow> url_values \<Rightarrow> url_values" where
  "Values_Set key val q = q(key \<mapsto> [val])"

text \<open>A request: method, URL, the headers set with \<^verbatim>\<open>Header.Set\<close>, the credentials
  given to \<^verbatim>\<open>SetBasicAuth\<close> (which the library encodes into the
  \<^verbatim>\<open>Authorization\<close> header), and the form values of the body, if any.\<close>

record request =
  Method :: string
  URL :: url
  Header :: "string \<rightharpoonup> string"
  BasicAuth :: "(string \<times> string) option"
  Form :: "url_values option"

text \<open>A response: status code, headers, the cookies of its \<^verbatim>\<open>Set-Cookie\<close> headers
  (name and value), and the outcome of reading the body (\<open>Inl\<close> a read error).\<close>

record response =
  StatusCode :: int
  RespHeader :: "(string \<times> string) list"
  Cookies :: "(string \<times> string) list"
  Body :: "string + string"

definition Header_Get :: "response \<Rightarrow> string \<Rightarrow> string" where
  "Header_Get resp key = (case map_of (RespHeader resp) key of Some v \<Rightarrow> v | None \<Rightarrow> [])"

datatype fetch_error =
    ErrCredentialsRequired                \<comment> \<open>\<^verbatim>\<open>username and password required for login\<close>\<close>
  | ErrAllAuthMethodsFailed               \<comment> \<open>\<^verbatim>\<open>all authentication methods failed\<close>\<close>
  | ErrAuthenticationFailed fetch_error   \<comment> \<open>\<^verbatim>\<open>authentication failed: %w\<close>\<close>
  | ErrReAuthenticationFailed fetch_error \<comment> \<open>\<^verbatim>\<open>re-authentication failed: %w\<close>\<close>
  | ErrInvalidBaseURL string              \<comment> \<open>\<^verbatim>\<open>invalid base URL: %w\<close>\<close>
  | ErrNewRequest string                  \<comment> \<open>the error of \<^verbatim>\<open>http.NewRequest\<close>\<close>
  | ErrTransport string                   \<comment> \<open>the error of \<^verbatim>\<open>client.Do\<close>\<close>
  | ErrNoRauthCookie                      \<comment> \<open>\<^verbatim>\<open>no rauth cookie found in login response\<close>\<close>
  | ErrBasicAuthNotAccepted               \<comment> \<open>\<^verbatim>\<open>HTTP Basic Auth not accepted\<close>\<close>
  | ErrURLAuthNotAccepted                 \<comment> \<open>\<^verbatim>\<open>URL-based auth not accepted\<close>\<close>
  | ErrAuthenticationRequired             \<comment> \<open>\<^verbatim>\<open>authentication required\<close>\<close>
  | ErrStatus int                         \<comment> \<open>\<^verbatim>\<open>HTTP request failed with status %d: %s\<close>\<close>
  | ErrReadBody string                    \<comment> \<open>the error of \<^verbatim>\<open>io.ReadAll\<close>\<close>
  | ErrNotJSON string                     \<comment> \<open>\<^verbatim>\<open>expected JSON response, got content-type: %s\<close>\<close>
  | ErrUnmarshal string                   \<comment> \<open>the error of \<^verbatim>\<open>json.Unmarshal\<close>\<close>

text \<open>The fields of \<^verbatim>\<open>Fetcher\<close>, without the logger and the HTTP client.\<close>

record Fetcher =
  BaseURL :: string
  AircraftType :: string
  MinAltitude :: int
  MaxAltitude :: int
  Military :: bool
  Operator :: string
  FlightNumber :: string
  UserLat :: real
  UserLong :: real
  MaxDistance :: real
  Username :: string
  Password :: string
  sessionCookie :: string
  authMethod :: string

definition NewFetcher :: "string \<Rightarrow> Fetcher" where
  "NewFetcher baseURL =
     \<lparr>BaseURL = baseURL, AircraftType = [], MinAltitude = 0, MaxAltitude = 0,
      Military = False, Operator = [], FlightNumber = [], UserLat = 0, UserLong = 0,
      MaxDistance = 0, Username = [], Password = [], sessionCookie = [], authMethod = []\<rparr>"

definition SetFilters ::
  "string \<Rightarrow> int \<Rightarrow> int \<Rightarrow> bool \<Rightarrow> string \<Rightarrow> string \<Rightarrow> Fetcher \<Rightarrow> Fetcher" where
  "SetFilters aircraftType minAltitude maxAltitude military operator flightNumber f =
     f\<lparr>AircraftType := aircraftType, MinAltitude := minAltitude, MaxAltitude := maxAltitude,
       Military := military, Operator := operator, FlightNumber := flightNumber\<rparr>"

definition SetLocation :: "real \<Rightarrow> real \<Rightarrow> real \<Rightarrow> Fetcher \<Rightarrow> Fetcher" where
  "SetLocation lat lng maxDistance f =
     f\<lparr>UserLat := lat, UserLong := lng, MaxDistance := maxDistance\<rparr>"

definition SetAuth :: "string \<Rightarrow> string \<Rightarrow> Fetcher \<Rightarrow> Fetcher" where
  "SetAuth username password f = f\<lparr>Username := username, Password := password\<rparr>"

text \<open>
  The network as the client sees it: the state \<open>'w\<close> of the server and of the
  transport, and the requests that the client has sent so far, in order.
\<close>

record 'w net =
  server :: 'w
  sent :: "request list"

text \<open>
  What the source takes from libraries and from the outside:
  \<^item> \<^verbatim>\<open>url.Parse\<close> on a string (\<open>Inl\<close> its error);
  \<^item> \<^verbatim>\<open>url.Parse(u.String())\<close>, which \<^verbatim>\<open>http.NewRequest\<close> runs on the string of a
    URL that the client has built;
  \<^item> \<^verbatim>\<open>client.Do\<close>: the transport error or the response, and the server afterwards
    (the client does not follow redirects);
  \<^item> \<^verbatim>\<open>strconv.FormatFloat(x, 'f', -1, 64)\<close>;
  \<^item> \<^verbatim>\<open>json.Unmarshal\<close> of a body into an \<^verbatim>\<open>AircraftList\<close>.
\<close>

record 'w FetchEnv =
  url_Parse :: "string \<Rightarrow> string + url"
  url_reparse :: "url \<Rightarrow> string + url"
  client_Do :: "request \<Rightarrow> 'w \<Rightarrow> (string + response) \<times> 'w"
  FormatFloat :: "real \<Rightarrow> string"
  json_Unmarshal :: "string \<Rightarrow> string + AircraftList"

definition Do :: "'w FetchEnv \<Rightarrow> request \<Rightarrow> 'w net \<Rightarrow> (string + response) \<times> 'w net" where
  "Do env req n =
     (case client_Do env req (server n) of
        (r, w') \<Rightarrow> (r, \<lparr>server = w', sent = sent n @ [req]\<rparr>))"

text \<open>String functions: \<^verbatim>\<open>strings.Contains\<close>, the source's own \<^verbatim>\<open>startsWith\<close>, and
  \<^verbatim>\<open>strings.EqualFold\<close> (on ASCII letters, which is what a comparison with
  \<^verbatim>\<open>"rauth"\<close> needs: no other character folds to one of its letters).\<close>

fun Contains :: "string \<Rightarrow> string \<Rightarrow> bool" where
  "Contains [] substr = (substr = [])"
| "Contains (c # s) substr = (take (length substr) (c # s) = substr \<or> Contains s substr)"

definition startsWith :: "string \<Rightarrow> string \<Rightarrow> bool" where
  "startsWith s pre \<longleftrightarrow> length s \<ge> length pre \<and> take (length pre) s = pre"

definition asciiLower :: "char \<Rightarrow> char" where
  "asciiLower c =
     (if (65::nat) \<le> of_char c \<and> of_char c \<le> (90::nat) then char_of (of_char c + (32::nat)) else c)"

definition EqualFold :: "string \<Rightarrow> string \<Rightarrow> bool" where
  "EqualFold s t \<longleftrightarrow> map asciiLower s = map asciiLower t"

definition userAgent :: string where
  "userAgent = ''Mozilla/5.0 (X11; Linux x86_64) AppleWebKit/537.36 (KHTML, like Gecko) Chrome/120.0.0.0 Safari/537.36''"

definition NewRequest :: "string \<Rightarrow> url \<Rightarrow> request" where
  "NewRequest method u =
     \<lparr>Method = method, URL = u, Header = Map.empty, BasicAuth = None, Form = None\<rparr>"

definition Header_Set :: "string \<Rightarrow> string \<Rightarrow> request \<Rightarrow> request" where
  "Header_Set key val req = req\<lparr>Header := (Header req)(key \<mapsto> val)\<rparr>"

text \<open>The two headers that every request of the client carries: \<^verbatim>\<open>User-Agent\<close>, and
  \<^verbatim>\<open>Referer\<close> built from the host of the request's URL.\<close>

definition setBrowserHeaders :: "request \<Rightarrow> request" where
  "setBrowserHeaders req =
     Header_Set ''Referer'' (''https://'' @ Host (URL req) @ ''/'')
       (Header_Set ''User-Agent'' userAgent req)"

text \<open>The four authentication methods. Each returns its error (\<open>None\<close> for
  \<^verbatim>\<open>nil\<close>), the fetcher and the network afterwards.\<close>

definition tryFormLogin ::
  "'w FetchEnv \<Rightarrow> Fetcher \<Rightarrow> 'w net \<Rightarrow> fetch_error option \<times> Fetcher \<times> 'w net" where
  "tryFormLogin env f n =
     (case url_Parse env (BaseURL f) of
        Inl e \<Rightarrow> (Some (ErrInvalidBaseURL e), f, n)
      | Inr baseURL \<Rightarrow>
          (let loginURL = ''https://'' @ Host baseURL @ ''/login.php'';
               formData = Values_Set ''password'' (Password f)
                            (Values_Set ''username'' (Username f) Map.empty)
           in case url_Parse env loginURL of
                Inl e \<Rightarrow> (Some (ErrNewRequest e), f, n)
              | Inr lu \<Rightarrow>
                  (let req = (NewRequest ''POST'' lu)\<lparr>Form := Some formData\<rparr>;
                       req = Header_Set ''Content-Type'' ''application/x-www-form-urlencoded'' req;
                       req = Header_Set ''User-Agent'' userAgent req;
                       req = Header_Set ''Referer'' (''https://'' @ Host baseURL @ ''/'') req
                   in case Do env req n of
                        (Inl e, n') \<Rightarrow> (Some (ErrTransport e), f, n')
                      | (Inr resp, n') \<Rightarrow>
                          (case find (\<lambda>cookie. EqualFold (fst cookie) ''rauth'') (Cookies resp) of
                             Some cookie \<Rightarrow>
                               (None,
                                f\<lparr>sessionCookie := fst cookie @ ''='' @ snd cookie,
                                  authMethod := ''session''\<rparr>, n')
                           | None \<Rightarrow> (Some ErrNoRauthCookie, f, n')))))"

definition tryBasicAuth ::
  "'w FetchEnv \<Rightarrow> Fetcher \<Rightarrow> 'w net \<Rightarrow> fetch_error option \<times> Fetcher \<times> 'w net" where
  "tryBasicAuth env f n =
     (let testURL = BaseURL f @ ''?test=1''
      in case url_Parse env testURL of
           Inl e \<Rightarrow> (Some (ErrNewRequest e), f, n)
         | Inr tu \<Rightarrow>
             (let req = (NewRequest ''GET'' tu)\<lparr>BasicAuth := Some (Username f, Password f)\<rparr>;
                  req = setBrowserHeaders req
              in case Do env req n of
                   (Inl e, n') \<Rightarrow> (Some (ErrTransport e), f, n')
                 | (Inr resp, n') \<Rightarrow>
                     (if Contains (Header_Get resp ''Content-Type'') ''application/json''
                      then (None, f\<lparr>authMethod := ''basic''\<rparr>, n')
                      else (Some ErrBasicAuthNotAccepted, f, n'))))"

definition tryURLAuth ::
  "'w FetchEnv \<Rightarrow> Fetcher \<Rightarrow> 'w net \<Rightarrow> fetch_error option \<times> Fetcher \<times> 'w net" where
  "tryURLAuth env f n =
     (case url_Parse env (BaseURL f) of
        Inl e \<Rightarrow> (Some (ErrInvalidBaseURL e), f, n)
      | Inr u \<Rightarrow>
          (let q = Values_Set ''password'' (Password f)
                     (Values_Set ''username'' (Username f) (Query u));
               u = u\<lparr>Query := q\<rparr>
           in case url_reparse env u of
                Inl e \<Rightarrow> (Some (ErrNewRequest e), f, n)
              | Inr ru \<Rightarrow>
                  (let req = setBrowserHeaders (NewRequest ''GET'' ru)
                   in case Do env req n of
                        (Inl e, n') \<Rightarrow> (Some (ErrTransport e), f, n')
                      | (Inr resp, n') \<Rightarrow>
                          (if Contains (Header_Get resp ''Content-Type'') ''application/json''
                           then (None, f\<lparr>authMethod := ''url''\<rparr>, n')
                           else (Some ErrURLAuthNotAccepted, f, n')))))"

definition tryNoAuth ::
  "'w FetchEnv \<Rightarrow> Fetcher \<Rightarrow> 'w net \<Rightarrow> fetch_error option \<times> Fetcher \<times> 'w net" where
  "tryNoAuth env f n =
     (case url_Parse env (BaseURL f) of
        Inl e \<Rightarrow> (Some (ErrNewRequest e), f, n)
      | Inr u \<Rightarrow>
          (let req = setBrowserHeaders (NewRequest ''GET'' u)
           in case Do env req n of
                (Inl e, n') \<Rightarrow> (Some (ErrTransport e), f, n')
              | (Inr resp, n') \<Rightarrow>
                  (if Contains (Header_Get resp ''Content-Type'') ''application/json''
                   then (None, f\<lparr>authMethod := ''none''\<rparr>, n')
                   else (Some ErrAuthenticationRequired, f, n'))))"

text \<open>\<^verbatim>\<open>login\<close>: the check of the credentials, then the loop over the methods in
  order, which stops at the first one that returns no error.\<close>

fun tryAuthMethods ::
  "(Fetcher \<Rightarrow> 'w net \<Rightarrow> fetch_error option \<times> Fetcher \<times> 'w net) list
     \<Rightarrow> Fetcher \<Rightarrow> 'w net \<Rightarrow> fetch_error option \<times> Fetcher \<times> 'w net" where
  "tryAuthMethods [] f n = (Some ErrAllAuthMethodsFailed, f, n)"
| "tryAuthMethods (method # methods) f n =
     (case method f n of
        (None, f', n') \<Rightarrow> (None, f', n')
      | (Some err, f', n') \<Rightarrow> tryAuthMethods methods f' n')"

definition login ::
  "'w FetchEnv \<Rightarrow> Fetcher \<Rightarrow> 'w net \<Rightarrow> fetch_error option \<times> Fetcher \<times> 'w net" where
  "login env f n =
     (if Username f = [] \<or> Password f = [] then (Some ErrCredentialsRequired, f, n)
      else tryAuthMethods
             [tryFormLogin env, tryBasicAuth env, tryURLAuth env, tryNoAuth env] f n)"

text \<open>
  \<^verbatim>\<open>Fetch\<close>, in the blocks of the source. \<open>applyFilters\<close> is the construction of
  the query (the counter \<^verbatim>\<open>filtersApplied\<close> is only logged); \<open>applyAuth\<close> the
  \<^verbatim>\<open>switch\<close> on the authentication method and the two browser headers;
  \<open>isLoginRedirect\<close> the test for a redirect to the login page; \<open>decodeResponse\<close>
  everything after that test.
\<close>

definition applyFilters :: "'w FetchEnv \<Rightarrow> Fetcher \<Rightarrow> url_values \<Rightarrow> url_values" where
  "applyFilters env f q =
     (let q = (if AircraftType f \<noteq> [] then Values_Set ''fTypQ'' (AircraftType f) q else q);
          q = (if MinAltitude f > 0 then Values_Set ''fAltL'' (Itoa (MinAltitude f)) q else q);
          q = (if MaxAltitude f > 0 then Values_Set ''fAltU'' (Itoa (MaxAltitude f)) q else q);
          q = (if Military f then Values_Set ''fMilQ'' ''1'' q else q);
          q = (if Operator f \<noteq> [] then Values_Set ''fOpQ'' (Operator f) q else q);
          q = (if FlightNumber f \<noteq> [] then Values_Set ''fCallQ'' (FlightNumber f) q else q);
          q = (if UserLat f \<noteq> 0 \<and> UserLong f \<noteq> 0 then
                 (let q = Values_Set ''lat'' (FormatFloat env (UserLat f)) q;
                      q = Values_Set ''lng'' (FormatFloat env (UserLong f)) q
                  in if MaxDistance f > 0
                     then Values_Set ''fDstU'' (FormatFloat env (MaxDistance f)) q
                     else q)
               else q);
          q = (if authMethod f = ''url''
               then Values_Set ''password'' (Password f) (Values_Set ''username'' (Username f) q)
               else q)
      in q)"

definition applyAuth :: "Fetcher \<Rightarrow> request \<Rightarrow> request" where
  "applyAuth f req =
     (let req =
            (if authMethod f = ''session'' then
               (if sessionCookie f \<noteq> [] then Header_Set ''Cookie'' (sessionCookie f) req
                else req)
             else if authMethod f = ''basic'' then
               req\<lparr>BasicAuth := Some (Username f, Password f)\<rparr>
             else req)
      in setBrowserHeaders req)"

definition isLoginRedirect :: "response \<Rightarrow> bool" where
  "isLoginRedirect resp \<longleftrightarrow>
     (StatusCode resp = 302 \<or> StatusCode resp = 301)
     \<and> Contains (Header_Get resp ''Location'') ''login.php''"

definition decodeResponse :: "'w FetchEnv \<Rightarrow> response \<Rightarrow> fetch_error + AircraftList" where
  "decodeResponse env resp =
     (if StatusCode resp \<noteq> 200 then Inl (ErrStatus (StatusCode resp))
      else case Body resp of
             Inl e \<Rightarrow> Inl (ErrReadBody e)
           | Inr body \<Rightarrow>
               (let contentType = Header_Get resp ''Content-Type''
                in if contentType = []
                      \<or> (contentType \<noteq> ''application/json''
                          \<and> \<not> startsWith contentType ''application/json'')
                   then Inl (ErrNotJSON contentType)
                   else case json_Unmarshal env body of
                          Inl e \<Rightarrow> Inl (ErrUnmarshal e)
                        | Inr acs \<Rightarrow> Inr acs))"

text \<open>
  \<^verbatim>\<open>Fetch\<close> calls itself after a successful re-authentication, with nothing that
  bounds the number of calls, so it is a partial function: \<open>None\<close> is a call that
  does not return. A call that returns gives the result, the fetcher and the network
  afterwards.
\<close>

partial_function (option) Fetch ::
  "'w FetchEnv \<Rightarrow> Fetcher \<Rightarrow> 'w net
     \<Rightarrow> ((fetch_error + AircraftList) \<times> Fetcher \<times> 'w net) option" where
  "Fetch env f n =
     (case (if (Username f \<noteq> [] \<or> Password f \<noteq> []) \<and> authMethod f = []
            then login env f n else (None, f, n)) of
        (Some err, f, n) \<Rightarrow> Some (Inl (ErrAuthenticationFailed err), f, n)
      | (None, f, n) \<Rightarrow>
          (case url_Parse env (BaseURL f) of
             Inl e \<Rightarrow> Some (Inl (ErrInvalidBaseURL e), f, n)
           | Inr u \<Rightarrow>
               (case url_reparse env (u\<lparr>Query := applyFilters env f (Query u)\<rparr>) of
                  Inl e \<Rightarrow> Some (Inl (ErrNewRequest e), f, n)
                | Inr ru \<Rightarrow>
                    (case Do env (applyAuth f (NewRequest ''GET'' ru)) n of
                       (Inl e, n) \<Rightarrow> Some (Inl (ErrTransport e), f, n)
                     | (Inr resp, n) \<Rightarrow>
                         if isLoginRedirect resp then
                           (case login env (f\<lparr>sessionCookie := [], authMethod := []\<rparr>) n of
                              (Some err, f, n) \<Rightarrow>
                                Some (Inl (ErrReAuthenticationFailed err), f, n)
                            | (None, f, n) \<Rightarrow> Fetch env f n)
                         else Some (decodeResponse env resp, f, n)))))"

text \<open>Several polls in a row, as the monitor loop issues them.\<close>

fun FetchRepeated ::
  "'w FetchEnv \<Rightarrow> nat \<Rightarrow> Fetcher \<Rightarrow> 'w net
     \<Rightarrow> ((fetch_error + AircraftList) list \<times> Fetcher \<times> 'w net) option" where
  "FetchRepeated env 0 f n = Some ([], f, n)"
| "FetchRepeated env (Suc k) f n =
     (case Fetch env f n of
        None \<Rightarrow> None
      | Some (r, f', n') \<Rightarrow>
          (case FetchRepeated env k f' n' of
             None \<Rightarrow> None
           | Some (rs, f'', n'') \<Rightarrow> Some (r # rs, f'', n'')))"

section \<open>Example values\<close>

definition cfgA :: Config where
  "cfgA = \<lparr>Location = \<lparr>Latitude = 51.5, Longitude = 0\<rparr>,
           Notification = \<lparr>Enabled = True, NotifyOnCloserOnly = True, ReNotifyAfter = 0\<rparr>\<rparr>"

definition trA :: AircraftTracker where
  "trA = \<lparr>LastDistance = 10, LastSeen = 0, Notified = True\<rparr>"

definition cfgZ :: Config where
  "cfgZ = \<lparr>Location = \<lparr>Latitude = 0, Longitude = 0\<rparr>,
           Notification = \<lparr>Enabled = True, NotifyOnCloserOnly = False, ReNotifyAfter = 0\<rparr>\<rparr>"

definition acA :: Aircraft where
  "acA = \<lparr>Icao = ''ABCDEF'', Call = ''TEST1'', Type = ''A320'', Alt = 10000,
          Lat = 51.6, Long = 0.1, Spd = 400, Mil = False\<rparr>"

definition acB :: Aircraft where
  "acB = \<lparr>Icao = [], Call = ''ERR1'', Type = ''B738'', Alt = 12000,
          Lat = 51.4, Long = - 0.2, Spd = 380, Mil = False\<rparr>"

text \<open>A feed that delivers two aircraft, a notifier that records each call in the
  world and fails, and a clock that stands at one hour.\<close>

definition envFail :: "SendCall list MonitorEnv" where
  "envFail =
     \<lparr>fetcher_Fetch = (\<lambda>w. (Inr \<lparr>TotalAc = 2, acList = [acA, acB]\<rparr>, w)),
      notifier_Send = (\<lambda>c w. (Some ''mock error: test error'', w @ [c])),
      time_Now = (\<lambda>w. (3600 * Second, w))\<rparr>"

text \<open>The same with a feed that cannot be reached.\<close>

definition envDown :: "SendCall list MonitorEnv" where
  "envDown = envFail\<lparr>fetcher_Fetch := (\<lambda>w. (Inl ''connection refused'', w))\<rparr>"

definition historyA :: history where
  "historyA =
     [''old'' \<mapsto> \<lparr>LastDistance = 0, LastSeen = 3600 * Second - 20 * Minute, Notified = False\<rparr>,
      ''recent'' \<mapsto> \<lparr>LastDistance = 0, LastSeen = 3600 * Second - 1 * Minute, Notified = False\<rparr>]"

definition monA :: "SendCall list Monitor" where
  "monA = \<lparr>config = cfgZ, aircraftHistory = historyA, errorLog = [], world = []\<rparr>"

text \<open>A feed server for the examples. Its login page sets the \<^verbatim>\<open>rauth\<close> cookie on
  every form login; its state is the number of feed requests it has answered.
  \<open>redirectServer k\<close> answers the first \<open>k\<close> feed requests with a redirect to the
  login page and the later ones with the (empty) aircraft list; \<open>alwaysRedirect\<close>
  answers every feed request with the redirect.\<close>

definition feedURL :: url where
  "feedURL =
     \<lparr>Scheme = ''https'', Host = ''radar.example'', Path = ''/AircraftList.json'',
      Query = Map.empty\<rparr>"

definition loginPage :: url where
  "loginPage =
     \<lparr>Scheme = ''https'', Host = ''radar.example'', Path = ''/login.php'', Query = Map.empty\<rparr>"

definition exParse :: "string \<Rightarrow> string + url" where
  "exParse s =
     (if s = ''https://radar.example/AircraftList.json'' then Inr feedURL
      else if s = ''https://radar.example/login.php'' then Inr loginPage
      else if s = ''https://radar.example/AircraftList.json?test=1''
      then Inr (feedURL\<lparr>Query := [''test'' \<mapsto> [''1'']]\<rparr>)
      else Inl ''parse error'')"

definition exFormatFloat :: "real \<Rightarrow> string" where
  "exFormatFloat x =
     (if x = 51.5 then ''51.5'' else if x = 100 then ''100'' else if x = - 0.1 then ''-0.1''
      else ''0'')"

definition okResponse :: response where
  "okResponse =
     \<lparr>StatusCode = 200, RespHeader = [(''Content-Type'', ''application/json'')],
      Cookies = [], Body = Inr ''{}''\<rparr>"

definition loginRedirect :: response where
  "loginRedirect =
     \<lparr>StatusCode = 302, RespHeader = [(''Location'', ''/login.php'')],
      Cookies = [], Body = Inr []\<rparr>"

definition loginAccepted :: response where
  "loginAccepted =
     \<lparr>StatusCode = 302, RespHeader = [(''Location'', ''/'')],
      Cookies = [(''rauth'', ''abc'')], Body = Inr []\<rparr>"

definition redirectServer :: "nat \<Rightarrow> request \<Rightarrow> nat \<Rightarrow> (string + response) \<times> nat" where
  "redirectServer k req w =
     (if Method req = ''POST'' then (Inr loginAccepted, w)
      else if w < k then (Inr loginRedirect, Suc w)
      else (Inr okResponse, Suc w))"

definition alwaysRedirect :: "request \<Rightarrow> nat \<Rightarrow> (string + response) \<times> nat" where
  "alwaysRedirect req w =
     (if Method req = ''POST'' then (Inr loginAccepted, w) else (Inr loginRedirect, Suc w))"

definition emptyList :: AircraftList where
  "emptyList = \<lparr>TotalAc = 0, acList = []\<rparr>"

definition envRedirect :: "nat \<Rightarrow> nat FetchEnv" where
  "envRedirect k =
     \<lparr>url_Parse = exParse, url_reparse = Inr, client_Do = redirectServer k,
      FormatFloat = exFormatFloat, json_Unmarshal = (\<lambda>body. Inr emptyList)\<rparr>"

definition envLoop :: "nat FetchEnv" where
  "envLoop = (envRedirect 0)\<lparr>client_Do := alwaysRedirect\<rparr>"

text \<open>A fetcher with credentials and the session of an earlier form login, and the two
  requests it sends: the feed request with its cookie and the form login.\<close>

definition fSession :: Fetcher where
  "fSession =
     (SetAuth ''user'' ''secret'' (NewFetcher ''https://radar.example/AircraftList.json''))
       \<lparr>sessionCookie := ''rauth=abc'', authMethod := ''session''\<rparr>"

definition feedRequest :: request where
  "feedRequest = applyAuth fSession (NewRequest ''GET'' feedURL)"

definition loginRequest :: request where
  "loginRequest =
     Header_Set ''Referer'' ''https://radar.example/''
       (Header_Set ''User-Agent'' userAgent
          (Header_Set ''Content-Type'' ''application/x-www-form-urlencoded''
             ((NewRequest ''POST'' loginPage)
                \<lparr>Form := Some [''username'' \<mapsto> [''user''], ''password'' \<mapsto> [''secret'']]\<rparr>)))"

text \<open>A fetcher for an observer on the prime meridian, and one with a user name and no
  password.\<close>

definition fMeridian :: Fetcher where
  "fMeridian = SetLocation 51.5 0 100 (NewFetcher ''https://radar.example/AircraftList.json'')"

definition fUserOnly :: Fetcher where
  "fUserOnly = SetAuth ''user'' [] (NewFetcher ''https://radar.example/AircraftList.json'')"

section \<open>Properties of the geo utility\<close>






lemma math_Round_nonneg_nearest:
  assumes "0 \<le> x"
  shows "\<bar>x - of_int (math_Round x)\<bar> \<le> 1 / 2"
proof -
  have "math_Round x = round x" using assms by (simp add: math_Round_def round_def)
  then show ?thesis using of_int_round_abs_le[of x] by (simp add: abs_minus_commute)
qed





lemmas BearingToDirection_eval =
  BearingToDirection_def directionIndex_def normalizeBearing_def math_Mod_def
  math_Trunc_def math_Round_def directions_def smod_int_alt_def




section \<open>Properties of the tracking engine\<close>

lemma time_Sub_exact:
  "r < maxDuration \<Longrightarrow> minDuration \<le> r \<Longrightarrow> (time_Sub t u > r) = (t - u > r)"
  by (auto simp: time_Sub_def Let_def)

lemma shouldNotifyAircraft_new:
  "h aircraftID = None \<Longrightarrow>
     shouldNotifyAircraft cfg now aircraftID d h =
       (True, h(aircraftID \<mapsto> \<lparr>LastDistance = d, LastSeen = now, Notified = True\<rparr>))"
  by (simp add: shouldNotifyAircraft_def)

lemma shouldNotifyAircraft_decision:
  "h aircraftID = Some tr \<Longrightarrow>
     fst (shouldNotifyAircraft cfg now aircraftID d h) =
       (if NotifyOnCloserOnly (Notification cfg)
        then d < LastDistance tr
             \<or> (ReNotifyAfter (Notification cfg) > 0
                 \<and> time_Sub now (LastSeen tr) > ReNotifyAfter (Notification cfg))
        else True)"
  by (simp add: shouldNotifyAircraft_def Let_def)

lemma shouldNotifyAircraft_update:
  "h aircraftID = Some tr \<Longrightarrow>
     snd (shouldNotifyAircraft cfg now aircraftID d h) =
       h(aircraftID \<mapsto> tr\<lparr>LastDistance := d, LastSeen := now,
           Notified := Notified tr \<or> fst (shouldNotifyAircraft cfg now aircraftID d h)\<rparr>)"
  by (simp add: shouldNotifyAircraft_def Let_def)

text \<open>
  Claim C2: on a first sighting (no tracker for the identifier) a tracker is created
  with the current distance, the current time and \<open>Notified\<close> set, and the decision
  is to notify, whatever the mode. On a later sighting the tracker's \<open>LastDistance\<close>
  and \<open>LastSeen\<close> are set to the current distance and time in every case; with
  "notify on closer only" the decision is to notify exactly when the aircraft is closer
  than its previous distance, or the re-notify interval is positive and the time since
  the previous \<open>LastSeen\<close> exceeds it; without that mode the decision is always to
  notify. The time since the previous sighting is \<^verbatim>\<open>now.Sub(LastSeen)\<close>, which is
  the plain difference for every interval below the largest duration.
\<close>

theorem C2_shouldNotifyAircraft:
  "(h aircraftID = None \<longrightarrow>
      shouldNotifyAircraft cfg now aircraftID d h =
        (True, h(aircraftID \<mapsto> \<lparr>LastDistance = d, LastSeen = now, Notified = True\<rparr>)))
   \<and> (h aircraftID = Some tr \<longrightarrow>
        snd (shouldNotifyAircraft cfg now aircraftID d h) =
          h(aircraftID \<mapsto> tr\<lparr>LastDistance := d, LastSeen := now,
              Notified := Notified tr \<or> fst (shouldNotifyAircraft cfg now aircraftID d h)\<rparr>)
        \<and> fst (shouldNotifyAircraft cfg now aircraftID d h) =
            (if NotifyOnCloserOnly (Notification cfg)
             then d < LastDistance tr
                  \<or> (ReNotifyAfter (Notification cfg) > 0
                      \<and> time_Sub now (LastSeen tr) > ReNotifyAfter (Notification cfg))
             else True)
        \<and> (minDuration \<le> ReNotifyAfter (Notification cfg)
            \<and> ReNotifyAfter (Notification cfg) < maxDuration \<longrightarrow>
            (time_Sub now (LastSeen tr) > ReNotifyAfter (Notification cfg))
              = (now - LastSeen tr > ReNotifyAfter (Notification cfg))))"
  using shouldNotifyAircraft_new[of h aircraftID cfg now d]
    shouldNotifyAircraft_update[of h aircraftID tr cfg now d]
    shouldNotifyAircraft_decision[of h aircraftID tr cfg now d]
    time_Sub_exact[of "ReNotifyAfter (Notification cfg)" now "LastSeen tr"]
  by blast

theorem C2_witness:
  "Map.empty ''ABCDEF'' = (None :: AircraftTracker option)
   \<and> shouldNotifyAircraft cfgA 5 ''ABCDEF'' 10 Map.empty =
       (True, [''ABCDEF'' \<mapsto> \<lparr>LastDistance = 10, LastSeen = 5, Notified = True\<rparr>])
   \<and> [''ABCDEF'' \<mapsto> trA] ''ABCDEF'' = Some trA
   \<and> snd (shouldNotifyAircraft cfgA 5 ''ABCDEF'' 12 [''ABCDEF'' \<mapsto> trA]) =
       [''ABCDEF'' \<mapsto> \<lparr>LastDistance = 12, LastSeen = 5, Notified = True\<rparr>]
   \<and> fst (shouldNotifyAircraft cfgA 5 ''ABCDEF'' 12 [''ABCDEF'' \<mapsto> trA]) = False
   \<and> fst (shouldNotifyAircraft cfgA 5 ''ABCDEF'' 8 [''ABCDEF'' \<mapsto> trA]) = True
   \<and> minDuration \<le> ReNotifyAfter (Notification cfgA)
   \<and> ReNotifyAfter (Notification cfgA) < maxDuration"
  using C2_shouldNotifyAircraft[of Map.empty "''ABCDEF''" cfgA 5 10 trA]
    C2_shouldNotifyAircraft[of "[''ABCDEF'' \<mapsto> trA]" "''ABCDEF''" cfgA 5 12 trA]
    C2_shouldNotifyAircraft[of "[''ABCDEF'' \<mapsto> trA]" "''ABCDEF''" cfgA 5 8 trA]
  by (simp add: cfgA_def trA_def minDuration_def maxDuration_def)

lemma cleanupEntries_delete:
  "cleanupEntries c (h(k := None)) aircraftID =
     (if aircraftID = k then None else cleanupEntries c h aircraftID)"
  by (simp add: cleanupEntries_def)

lemma cleanupLoop_pointwise:
  "cleanupLoop c ks h aircraftID =
     (if aircraftID \<in> set ks then cleanupEntries c h aircraftID else h aircraftID)"
proof (induction ks arbitrary: h)
  case Nil
  show ?case by simp
next
  case (Cons k ks)
  show ?case
  proof (cases "h k")
    case None
    then have "cleanupEntries c h k = h k" by (simp add: cleanupEntries_def)
    with None show ?thesis by (simp add: Cons.IH)
  next
    case (Some tracker)
    show ?thesis
    proof (cases "time_Before (LastSeen tracker) c")
      case True
      with Some have "cleanupEntries c h k = None" by (simp add: cleanupEntries_def)
      with Some True show ?thesis by (simp add: Cons.IH cleanupEntries_delete)
    next
      case False
      with Some have "cleanupEntries c h k = h k" by (simp add: cleanupEntries_def)
      with Some False show ?thesis by (simp add: Cons.IH)
    qed
  qed
qed

lemma cleanupLoop_eq:
  assumes "dom h \<subseteq> set ks"
  shows "cleanupLoop c ks h = cleanupEntries c h"
proof
  fix aircraftID
  show "cleanupLoop c ks h aircraftID = cleanupEntries c h aircraftID"
  proof (cases "aircraftID \<in> set ks")
    case True
    then show ?thesis by (simp add: cleanupLoop_pointwise)
  next
    case False
    with assms have "h aircraftID = None" by auto
    with False show ?thesis by (simp add: cleanupLoop_pointwise cleanupEntries_def)
  qed
qed

lemma cleanup_fields:
  assumes "time_Now env (world m) = (now, w')"
  shows "aircraftHistory (cleanupAircraftHistory env m) =
           cleanupEntries (now - 900000000000) (aircraftHistory m)"
    and "world (cleanupAircraftHistory env m) = w'"
    and "errorLog (cleanupAircraftHistory env m) = errorLog m"
    and "config (cleanupAircraftHistory env m) = config m"
  using assms
  by (simp_all add: cleanupAircraftHistory_def time_Add_def Minute_def Second_def)

text \<open>
  Claim C6: a cleanup sweep at time \<open>now\<close> removes from the tracker map exactly the
  trackers whose \<open>LastSeen\<close> is before \<open>now\<close> minus 15 minutes and keeps every
  other tracker as it is; a tracker last seen 20 minutes ago is removed, one last seen
  1 minute ago survives, and no tracker older than the threshold remains. The sweep is
  the source's loop in whatever order it visits the keys. It reads the clock and does
  nothing else outside the map: no notification is sent, no error is reported.
\<close>

theorem C6_cleanup_sweep:
  assumes "time_Now env (world m) = (now, w')"
  shows "(aircraftHistory m aircraftID = None \<longrightarrow>
            aircraftHistory (cleanupAircraftHistory env m) aircraftID = None)
    \<and> (aircraftHistory m aircraftID = Some tr \<longrightarrow>
            aircraftHistory (cleanupAircraftHistory env m) aircraftID =
              (if LastSeen tr < now - 15 * 60 * 1000000000 then None else Some tr))
    \<and> (aircraftHistory m aircraftID = Some tr \<and> LastSeen tr = now - 20 * Minute \<longrightarrow>
            aircraftHistory (cleanupAircraftHistory env m) aircraftID = None)
    \<and> (aircraftHistory m aircraftID = Some tr \<and> LastSeen tr = now - 1 * Minute \<longrightarrow>
            aircraftHistory (cleanupAircraftHistory env m) aircraftID = Some tr)
    \<and> (aircraftHistory (cleanupAircraftHistory env m) aircraftID = Some tr \<longrightarrow>
            now - 15 * Minute \<le> LastSeen tr)
    \<and> (set ks = dom (aircraftHistory m) \<longrightarrow>
            aircraftHistory (cleanupAircraftHistory env m) =
              cleanupLoop (now - 15 * Minute) ks (aircraftHistory m))
    \<and> world (cleanupAircraftHistory env m) = w'
    \<and> errorLog (cleanupAircraftHistory env m) = errorLog m"
proof -
  note f = cleanup_fields[OF assms]
  have c: "now - 15 * Minute = now - 900000000000" by (simp add: Minute_def Second_def)
  have 1: "aircraftHistory m aircraftID = None \<longrightarrow>
            aircraftHistory (cleanupAircraftHistory env m) aircraftID = None"
    by (simp add: f cleanupEntries_def)
  have 2: "aircraftHistory m aircraftID = Some tr \<longrightarrow>
            aircraftHistory (cleanupAircraftHistory env m) aircraftID =
              (if LastSeen tr < now - 15 * 60 * 1000000000 then None else Some tr)"
    by (simp add: f cleanupEntries_def time_Before_def)
  have 3: "aircraftHistory m aircraftID = Some tr \<and> LastSeen tr = now - 20 * Minute \<longrightarrow>
            aircraftHistory (cleanupAircraftHistory env m) aircraftID = None"
    by (simp add: f cleanupEntries_def time_Before_def Minute_def Second_def)
  have 4: "aircraftHistory m aircraftID = Some tr \<and> LastSeen tr = now - 1 * Minute \<longrightarrow>
            aircraftHistory (cleanupAircraftHistory env m) aircraftID = Some tr"
    by (simp add: f cleanupEntries_def time_Before_def Minute_def Second_def)
  have 5: "aircraftHistory (cleanupAircraftHistory env m) aircraftID = Some tr \<longrightarrow>
            now - 15 * Minute \<le> LastSeen tr"
    by (auto simp: f c cleanupEntries_def time_Before_def split: option.splits if_splits)
  have 6: "set ks = dom (aircraftHistory m) \<longrightarrow>
            aircraftHistory (cleanupAircraftHistory env m) =
              cleanupLoop (now - 15 * Minute) ks (aircraftHistory m)"
    by (simp add: f c cleanupLoop_eq)
  from 1 2 3 4 5 6 f(2,3) show ?thesis by blast
qed

theorem C6_witness:
  "time_Now envFail (world monA) = (3600 * Second, [])
   \<and> aircraftHistory monA ''gone'' = None
   \<and> aircraftHistory (cleanupAircraftHistory envFail monA) ''gone'' = None
   \<and> aircraftHistory monA ''old''
        = Some \<lparr>LastDistance = 0, LastSeen = 3600 * Second - 20 * Minute, Notified = False\<rparr>
   \<and> aircraftHistory (cleanupAircraftHistory envFail monA) ''old'' = None
   \<and> aircraftHistory monA ''recent''
        = Some \<lparr>LastDistance = 0, LastSeen = 3600 * Second - 1 * Minute, Notified = False\<rparr>
   \<and> aircraftHistory (cleanupAircraftHistory envFail monA) ''recent''
        = Some \<lparr>LastDistance = 0, LastSeen = 3600 * Second - 1 * Minute, Notified = False\<rparr>
   \<and> 3600 * Second - 15 * Minute \<le> 3600 * Second - 1 * Minute
   \<and> set [''recent'', ''old''] = dom (aircraftHistory monA)
   \<and> aircraftHistory (cleanupAircraftHistory envFail monA)
        = cleanupLoop (3600 * Second - 15 * Minute) [''recent'', ''old''] (aircraftHistory monA)
   \<and> world (cleanupAircraftHistory envFail monA) = []
   \<and> errorLog (cleanupAircraftHistory envFail monA) = []"
proof -
  have now: "time_Now envFail (world monA) = (3600 * Second, [])"
    by (simp add: envFail_def monA_def)
  have old: "aircraftHistory monA ''old''
        = Some \<lparr>LastDistance = 0, LastSeen = 3600 * Second - 20 * Minute, Notified = False\<rparr>"
    by (simp add: monA_def historyA_def)
  have recent: "aircraftHistory monA ''recent''
        = Some \<lparr>LastDistance = 0, LastSeen = 3600 * Second - 1 * Minute, Notified = False\<rparr>"
    by (simp add: monA_def historyA_def)
  have gone: "aircraftHistory monA ''gone'' = None"
    by (simp add: monA_def historyA_def)
  have keys: "set [''recent'', ''old''] = dom (aircraftHistory monA)"
    by (auto simp: monA_def historyA_def)
  have le: "3600 * Second - 15 * Minute \<le> 3600 * Second - 1 * Minute"
    by (simp add: Minute_def Second_def)
  let ?old = "\<lparr>LastDistance = 0, LastSeen = 3600 * Second - 20 * Minute, Notified = False\<rparr>"
  let ?recent = "\<lparr>LastDistance = 0, LastSeen = 3600 * Second - 1 * Minute, Notified = False\<rparr>"
  note i1 = C6_cleanup_sweep[OF now, of "''old''" ?old "[''recent'', ''old'']"]
  note i2 = C6_cleanup_sweep[OF now, of "''recent''" ?recent "[''recent'', ''old'']"]
  note i3 = C6_cleanup_sweep[OF now, of "''gone''" ?recent "[''recent'', ''old'']"]
  have ls1: "LastSeen ?old = 3600 * Second - 20 * Minute"
    and ls2: "LastSeen ?recent = 3600 * Second - 1 * Minute"
    by simp_all
  have r1: "aircraftHistory (cleanupAircraftHistory envFail monA) ''old'' = None"
    using i1 old ls1 by blast
  have r2: "aircraftHistory (cleanupAircraftHistory envFail monA) ''recent'' = Some ?recent"
    using i2 recent ls2 by blast
  have r3: "aircraftHistory (cleanupAircraftHistory envFail monA) ''gone'' = None"
    using i3 gone by blast
  have r4: "aircraftHistory (cleanupAircraftHistory envFail monA)
        = cleanupLoop (3600 * Second - 15 * Minute) [''recent'', ''old''] (aircraftHistory monA)"
    using i1 keys by blast
  have r5: "world (cleanupAircraftHistory envFail monA) = []"
    and r6: "errorLog (cleanupAircraftHistory envFail monA) = []"
    using i1 by (simp_all only: monA_def Monitor.simps)
  from now old recent gone keys le r1 r2 r3 r4 r5 r6 show ?thesis by blast
qed

lemma shouldNotifyAircraft_dom:
  "dom (snd (shouldNotifyAircraft cfg now aircraftID d h)) = insert aircraftID (dom h)"
  by (auto simp: shouldNotifyAircraft_def Let_def split: option.splits if_splits)

lemma processAircraft_history:
  "aircraftHistory (snd (processAircraft env m ac)) =
     snd (shouldNotifyAircraft (config m) (fst (time_Now env (world m)))
            (getAircraftIdentifier ac) (calculateDistance (config m) (Lat ac) (Long ac))
            (aircraftHistory m))"
  by (simp add: processAircraft_def Let_def split: prod.splits option.splits)

lemma processAircraft_config:
  "config (snd (processAircraft env m ac)) = config m"
  by (simp add: processAircraft_def Let_def split: prod.splits option.splits)

lemma processAircraft_dom:
  "dom (aircraftHistory (snd (processAircraft env m ac))) =
     insert (getAircraftIdentifier ac) (dom (aircraftHistory m))"
  by (simp only: processAircraft_history shouldNotifyAircraft_dom)

lemma processAll_dom:
  "dom (aircraftHistory (processAll env m acs)) =
     dom (aircraftHistory m) \<union> getAircraftIdentifier ` set acs"
proof (induction acs arbitrary: m)
  case Nil
  show ?case by simp
next
  case (Cons ac acs)
  obtain r m' where p: "processAircraft env m ac = (r, m')" by (cases "processAircraft env m ac")
  have d: "dom (aircraftHistory m') = insert (getAircraftIdentifier ac) (dom (aircraftHistory m))"
    using processAircraft_dom[of env m ac] p by simp
  show ?case
  proof (cases r)
    case None
    with p d show ?thesis by (simp add: Cons.IH)
  next
    case (Some err)
    with p d show ?thesis by (simp add: Cons.IH)
  qed
qed

lemma processAll_config: "config (processAll env m acs) = config m"
proof (induction acs arbitrary: m)
  case Nil
  show ?case by simp
next
  case (Cons ac acs)
  obtain r m' where p: "processAircraft env m ac = (r, m')" by (cases "processAircraft env m ac")
  have c: "config m' = config m" using processAircraft_config[of env m ac] p by simp
  show ?case using p c by (cases r) (simp_all add: Cons.IH)
qed

text \<open>
  Claim C7: when the fetch fails, the poll cycle returns the error at once: no aircraft
  is processed and the tracker map is the one before the cycle. When the fetch
  succeeds, the cycle returns no error and every aircraft of the batch is processed,
  whatever errors single aircraft produce: an aircraft whose processing fails is
  reported and the loop goes on with the rest, so after the cycle the map has a tracker
  for every aircraft of the batch.
\<close>

theorem C7_batch_failure_semantics:
  "(fetcher_Fetch env (world m) = (Inl err, w') \<longrightarrow>
      fetchAndProcess env m = (Some (FetchFailed err), m\<lparr>world := w'\<rparr>)
      \<and> aircraftHistory (snd (fetchAndProcess env m)) = aircraftHistory m)
   \<and> (fetcher_Fetch env (world m) = (Inr al, w') \<longrightarrow>
      fetchAndProcess env m = (None, processAll env (m\<lparr>world := w'\<rparr>) (acList al))
      \<and> dom (aircraftHistory (snd (fetchAndProcess env m))) =
          dom (aircraftHistory m) \<union> getAircraftIdentifier ` set (acList al))
   \<and> (processAircraft env m ac = (Some e, m') \<longrightarrow>
      processAll env m (ac # acs) =
        processAll env (m'\<lparr>errorLog := errorLog m' @ [(Call ac, e)]\<rparr>) acs)
   \<and> dom (aircraftHistory (processAll env m (ac # acs))) =
        insert (getAircraftIdentifier ac) (dom (aircraftHistory m))
          \<union> getAircraftIdentifier ` set acs"
proof -
  have 1: "fetcher_Fetch env (world m) = (Inl err, w') \<longrightarrow>
      fetchAndProcess env m = (Some (FetchFailed err), m\<lparr>world := w'\<rparr>)
      \<and> aircraftHistory (snd (fetchAndProcess env m)) = aircraftHistory m"
    by (simp add: fetchAndProcess_def)
  have 2: "fetcher_Fetch env (world m) = (Inr al, w') \<longrightarrow>
      fetchAndProcess env m = (None, processAll env (m\<lparr>world := w'\<rparr>) (acList al))
      \<and> dom (aircraftHistory (snd (fetchAndProcess env m))) =
          dom (aircraftHistory m) \<union> getAircraftIdentifier ` set (acList al)"
    by (simp add: fetchAndProcess_def processAll_dom)
  have 3: "processAircraft env m ac = (Some e, m') \<longrightarrow>
      processAll env m (ac # acs) =
        processAll env (m'\<lparr>errorLog := errorLog m' @ [(Call ac, e)]\<rparr>) acs"
    by simp
  have 4: "dom (aircraftHistory (processAll env m (ac # acs))) =
        insert (getAircraftIdentifier ac) (dom (aircraftHistory m))
          \<union> getAircraftIdentifier ` set acs"
    by (simp only: processAll_dom) auto
  from 1 2 3 4 show ?thesis by blast
qed

lemma shouldNotifyAircraft_allNotified:
  assumes "allNotified h"
  shows "allNotified (snd (shouldNotifyAircraft cfg now aircraftID d h))"
proof (cases "h aircraftID")
  case None
  with assms show ?thesis
    by (auto simp: shouldNotifyAircraft_def allNotified_def)
next
  case (Some tracker)
  with assms have "Notified tracker" by (auto simp: allNotified_def)
  with Some assms show ?thesis
    by (auto simp: shouldNotifyAircraft_def allNotified_def Let_def)
qed

lemma processAircraft_allNotified:
  "allNotified (aircraftHistory m) \<Longrightarrow> allNotified (aircraftHistory (snd (processAircraft env m ac)))"
  by (simp only: processAircraft_history shouldNotifyAircraft_allNotified)

lemma processAll_allNotified:
  "allNotified (aircraftHistory m) \<Longrightarrow> allNotified (aircraftHistory (processAll env m acs))"
proof (induction acs arbitrary: m)
  case Nil
  then show ?case by simp
next
  case (Cons ac acs)
  obtain r m' where p: "processAircraft env m ac = (r, m')" by (cases "processAircraft env m ac")
  have a: "allNotified (aircraftHistory m')"
    using processAircraft_allNotified[OF Cons.prems, of env ac] p by simp
  show ?case
  proof (cases r)
    case None
    with p show ?thesis using Cons.IH[OF a] by simp
  next
    case (Some err)
    have "allNotified (aircraftHistory (m'\<lparr>errorLog := errorLog m' @ [(Call ac, err)]\<rparr>))"
      using a by simp
    from Cons.IH[OF this] p Some show ?thesis by simp
  qed
qed

lemma fetchAndProcess_allNotified:
  assumes "allNotified (aircraftHistory m)"
  shows "allNotified (aircraftHistory (snd (fetchAndProcess env m)))"
proof -
  obtain r w' where f: "fetcher_Fetch env (world m) = (r, w')"
    by (cases "fetcher_Fetch env (world m)")
  show ?thesis
  proof (cases r)
    case (Inl err)
    with f assms show ?thesis by (simp add: fetchAndProcess_def)
  next
    case (Inr al)
    have "allNotified (aircraftHistory (m\<lparr>world := w'\<rparr>))" using assms by simp
    from processAll_allNotified[OF this] f Inr show ?thesis by (simp add: fetchAndProcess_def)
  qed
qed

lemma cleanup_allNotified:
  assumes "allNotified (aircraftHistory m)"
  shows "allNotified (aircraftHistory (cleanupAircraftHistory env m))"
proof -
  obtain now w' where n: "time_Now env (world m) = (now, w')"
    by (cases "time_Now env (world m)")
  have "allNotified (cleanupEntries c (aircraftHistory m))" for c
    using assms by (auto simp: allNotified_def cleanupEntries_def split: option.splits if_splits)
  then show ?thesis using n by (simp add: cleanupAircraftHistory_def)
qed

lemma monitor_step_allNotified:
  "allNotified (aircraftHistory m) \<Longrightarrow> allNotified (aircraftHistory (monitor_step env m operation))"
  by (cases operation)
    (simp_all add: fetchAndProcess_allNotified processAircraft_allNotified cleanup_allNotified)

lemma monitor_run_allNotified:
  "allNotified (aircraftHistory m) \<Longrightarrow> allNotified (aircraftHistory (monitor_run env m ops))"
  unfolding monitor_run_def
  by (induction ops arbitrary: m) (simp_all add: monitor_step_allNotified)

lemma shouldNotifyAircraft_Enabled:
  "shouldNotifyAircraft (cfg\<lparr>Notification := (Notification cfg)\<lparr>Enabled := enabled\<rparr>\<rparr>) now aircraftID d h =
     shouldNotifyAircraft cfg now aircraftID d h"
  by (simp add: shouldNotifyAircraft_def Let_def split: option.splits)

lemma calculateDistance_Enabled:
  "calculateDistance (cfg\<lparr>Notification := (Notification cfg)\<lparr>Enabled := enabled\<rparr>\<rparr>) la lo =
     calculateDistance cfg la lo"
  by (simp add: calculateDistance_def)

text \<open>
  Claim C9: every tracker in the map has \<open>Notified\<close> set. This holds in the new
  monitor and after every run of poll cycles, single-aircraft processing and cleanup
  sweeps, with any feed, notifier and clock; a first sighting creates the tracker with
  \<open>Notified\<close> set. The tracker map after processing an
  aircraft is the one the notify decision leaves: it is the same whether notifications
  are enabled or not, and whatever the notifier does.
\<close>

theorem C9_trackers_always_notified:
  "allNotified (aircraftHistory (monitor_run env (NewMonitorWithDeps cfg w) ops))
   \<and> (allNotified (aircraftHistory m) \<longrightarrow>
        allNotified (aircraftHistory (monitor_run env m ops)))
   \<and> aircraftHistory (snd (processAircraft env m ac)) =
        snd (shouldNotifyAircraft (config m) (fst (time_Now env (world m)))
              (getAircraftIdentifier ac) (calculateDistance (config m) (Lat ac) (Long ac))
              (aircraftHistory m))
   \<and> aircraftHistory
        (snd (processAircraft (env\<lparr>notifier_Send := send\<rparr>)
           (m\<lparr>config := (config m)\<lparr>Notification :=
                 (Notification (config m))\<lparr>Enabled := enabled\<rparr>\<rparr>\<rparr>) ac)) =
      aircraftHistory (snd (processAircraft env m ac))
   \<and> (h aircraftID = None \<longrightarrow>
        map_option Notified (snd (shouldNotifyAircraft c now aircraftID d h) aircraftID)
          = Some True)"
proof -
  have 5: "h aircraftID = None \<longrightarrow>
        map_option Notified (snd (shouldNotifyAircraft c now aircraftID d h) aircraftID)
          = Some True"
    by (simp add: shouldNotifyAircraft_def)
  have "allNotified (aircraftHistory (NewMonitorWithDeps cfg w))"
    by (simp add: NewMonitorWithDeps_def allNotified_def)
  then have 1: "allNotified (aircraftHistory (monitor_run env (NewMonitorWithDeps cfg w) ops))"
    by (rule monitor_run_allNotified)
  have 2: "allNotified (aircraftHistory m) \<longrightarrow>
        allNotified (aircraftHistory (monitor_run env m ops))"
    by (simp add: monitor_run_allNotified)
  have 4: "aircraftHistory
        (snd (processAircraft (env\<lparr>notifier_Send := send\<rparr>)
           (m\<lparr>config := (config m)\<lparr>Notification :=
                 (Notification (config m))\<lparr>Enabled := enabled\<rparr>\<rparr>\<rparr>) ac)) =
      aircraftHistory (snd (processAircraft env m ac))"
    by (simp add: processAircraft_history shouldNotifyAircraft_Enabled calculateDistance_Enabled)
  from 1 2 4 5 processAircraft_history[of env m ac] show ?thesis by blast
qed

lemmas monitor_eval =
  processAircraft_def calculateDistance_def calculateBearing_def getAircraftIdentifier_def
  shouldNotifyAircraft_def BearingToDirection_eval Let_def

lemma processAircraft_acA:
  "processAircraft envFail monA acA =
     (Some (SendFailed ''mock error: test error''),
      monA\<lparr>aircraftHistory := historyA(''ABCDEF'' \<mapsto>
              \<lparr>LastDistance = 0, LastSeen = 3600 * Second, Notified = True\<rparr>),
           world := [\<lparr>send_callsign = ''TEST1'', send_aircraftType = ''A320'',
                     send_altitude = 10000, send_speed = 400, send_distance = 0,
                     send_direction = ''N'', send_previousDistance = 0\<rparr>]\<rparr>)"
  by (simp add: monitor_eval envFail_def monA_def historyA_def cfgZ_def acA_def)

lemma fetchAndProcess_envFail:
  "errorLog (snd (fetchAndProcess envFail monA)) =
     [(''TEST1'', SendFailed ''mock error: test error''),
      (''ERR1'', SendFailed ''mock error: test error'')]
   \<and> map send_callsign (world (snd (fetchAndProcess envFail monA))) = [''TEST1'', ''ERR1'']"
  by (simp add: fetchAndProcess_def monitor_eval envFail_def monA_def historyA_def cfgZ_def
      acA_def acB_def)

theorem C7_witness:
  "fetcher_Fetch envDown (world monA) = (Inl ''connection refused'', [])
   \<and> fetchAndProcess envDown monA = (Some (FetchFailed ''connection refused''), monA)
   \<and> aircraftHistory (snd (fetchAndProcess envDown monA)) = historyA
   \<and> fetcher_Fetch envFail (world monA) = (Inr \<lparr>TotalAc = 2, acList = [acA, acB]\<rparr>, [])
   \<and> fst (fetchAndProcess envFail monA) = None
   \<and> dom (aircraftHistory (snd (fetchAndProcess envFail monA))) =
        {''old'', ''recent'', ''ABCDEF'', ''ERR1''}
   \<and> fst (processAircraft envFail monA acA) = Some (SendFailed ''mock error: test error'')
   \<and> processAll envFail monA [acA, acB] =
        processAll envFail
          ((snd (processAircraft envFail monA acA))
             \<lparr>errorLog := [(''TEST1'', SendFailed ''mock error: test error'')]\<rparr>) [acB]
   \<and> errorLog (snd (fetchAndProcess envFail monA)) =
        [(''TEST1'', SendFailed ''mock error: test error''),
         (''ERR1'', SendFailed ''mock error: test error'')]
   \<and> map send_callsign (world (snd (fetchAndProcess envFail monA))) = [''TEST1'', ''ERR1'']"
proof -
  have down: "fetcher_Fetch envDown (world monA) = (Inl ''connection refused'', [])"
    by (simp add: envDown_def envFail_def monA_def)
  have up: "fetcher_Fetch envFail (world monA) = (Inr \<lparr>TotalAc = 2, acList = [acA, acB]\<rparr>, [])"
    by (simp add: envFail_def monA_def)
  have same: "monA\<lparr>world := []\<rparr> = monA" "aircraftHistory monA = historyA"
    by (simp_all add: monA_def)
  define m' where "m' = snd (processAircraft envFail monA acA)"
  have pa: "processAircraft envFail monA acA = (Some (SendFailed ''mock error: test error''), m')"
    unfolding m'_def by (simp only: processAircraft_acA snd_conv)
  have el: "errorLog m' = []"
    unfolding m'_def by (simp only: processAircraft_acA snd_conv) (simp add: monA_def)
  have ca: "Call acA = ''TEST1''"
    by (simp add: acA_def)
  note i1 = C7_batch_failure_semantics[of envDown monA "''connection refused''" "[]"]
  note i2 = C7_batch_failure_semantics[of envFail monA _ "[]" "\<lparr>TotalAc = 2, acList = [acA, acB]\<rparr>"
      acA "SendFailed ''mock error: test error''" m' "[acB]"]
  have r1: "fetchAndProcess envDown monA = (Some (FetchFailed ''connection refused''), monA)"
    and r2: "aircraftHistory (snd (fetchAndProcess envDown monA)) = historyA"
  proof -
    have "fetchAndProcess envDown monA =
        (Some (FetchFailed ''connection refused''), monA\<lparr>world := []\<rparr>)"
      and "aircraftHistory (snd (fetchAndProcess envDown monA)) = aircraftHistory monA"
      using i1[THEN conjunct1, THEN mp, OF down] by (rule conjunct1, rule conjunct2)
    then show "fetchAndProcess envDown monA = (Some (FetchFailed ''connection refused''), monA)"
      and "aircraftHistory (snd (fetchAndProcess envDown monA)) = historyA"
      by (simp_all add: same)
  qed
  have "fetchAndProcess envFail monA =
      (None, processAll envFail (monA\<lparr>world := []\<rparr>) (acList \<lparr>TotalAc = 2, acList = [acA, acB]\<rparr>))"
    by (rule i2[THEN conjunct2, THEN conjunct1, THEN mp, OF up, THEN conjunct1])
  then have r3: "fst (fetchAndProcess envFail monA) = None"
    by (simp only: fst_conv)
  have ids: "getAircraftIdentifier acA = ''ABCDEF''" "getAircraftIdentifier acB = ''ERR1''"
    by (simp_all add: getAircraftIdentifier_def acA_def acB_def)
  have "dom (aircraftHistory (snd (fetchAndProcess envFail monA))) =
      dom (aircraftHistory monA)
        \<union> getAircraftIdentifier ` set (acList \<lparr>TotalAc = 2, acList = [acA, acB]\<rparr>)"
    by (rule i2[THEN conjunct2, THEN conjunct1, THEN mp, OF up, THEN conjunct2])
  also have "\<dots> = dom historyA \<union> getAircraftIdentifier ` set [acA, acB]"
    by (simp add: same)
  also have "\<dots> = {''old'', ''recent'', ''ABCDEF'', ''ERR1''}"
    by (auto simp: historyA_def ids)
  finally have r4: "dom (aircraftHistory (snd (fetchAndProcess envFail monA))) =
        {''old'', ''recent'', ''ABCDEF'', ''ERR1''}" .
  have r5: "fst (processAircraft envFail monA acA) = Some (SendFailed ''mock error: test error'')"
    by (simp only: pa fst_conv)
  have r6: "processAll envFail monA [acA, acB] =
        processAll envFail
          ((snd (processAircraft envFail monA acA))
             \<lparr>errorLog := [(''TEST1'', SendFailed ''mock error: test error'')]\<rparr>) [acB]"
  proof -
    have "processAll envFail monA (acA # [acB]) =
        processAll envFail
          (m'\<lparr>errorLog := errorLog m' @ [(Call acA, SendFailed ''mock error: test error'')]\<rparr>) [acB]"
      by (rule i2[THEN conjunct2, THEN conjunct2, THEN conjunct1, THEN mp, OF pa])
    then have "processAll envFail monA [acA, acB] =
        processAll envFail (m'\<lparr>errorLog := [(''TEST1'', SendFailed ''mock error: test error'')]\<rparr>) [acB]"
      by (simp only: el ca append_Nil)
    then show ?thesis by (simp only: m'_def)
  qed
  note r7 = fetchAndProcess_envFail[THEN conjunct1]
  note r8 = fetchAndProcess_envFail[THEN conjunct2]
  show ?thesis
    by (intro conjI) (fact down r1 r2 up r3 r4 r5 r6 r7 r8)+
qed

theorem C9_witness:
  "allNotified (aircraftHistory (monitor_run envFail (NewMonitorWithDeps cfgZ []) [Poll, Sweep]))
   \<and> aircraftHistory (monitor_run envFail (NewMonitorWithDeps cfgZ []) [Poll, Sweep]) ''ABCDEF''
       = Some \<lparr>LastDistance = 0, LastSeen = 3600 * Second, Notified = True\<rparr>
   \<and> allNotified [''ABCDEF'' \<mapsto> trA]
   \<and> allNotified (aircraftHistory (monitor_run envFail
        \<lparr>config = cfgA, aircraftHistory = [''ABCDEF'' \<mapsto> trA], errorLog = [], world = []\<rparr>
        [Process acA, Sweep, Poll]))
   \<and> (Map.empty :: history) ''ABCDEF'' = None
   \<and> map_option Notified
         (snd (shouldNotifyAircraft cfgZ 5 ''ABCDEF'' 0 Map.empty) ''ABCDEF'') = Some True"
proof -
  have e: "(Map.empty :: history) ''ABCDEF'' = None" by simp
  have f: "map_option Notified
         (snd (shouldNotifyAircraft cfgZ 5 ''ABCDEF'' 0 Map.empty) ''ABCDEF'') = Some True"
    by (rule C9_trackers_always_notified[where h = Map.empty and aircraftID = "''ABCDEF''"
          and c = cfgZ and now = 5 and d = 0,
          THEN conjunct2, THEN conjunct2, THEN conjunct2, THEN conjunct2, THEN mp, OF e])
  have a: "allNotified [''ABCDEF'' \<mapsto> trA]"
    by (simp add: allNotified_def trA_def)
  have b: "aircraftHistory (monitor_run envFail (NewMonitorWithDeps cfgZ []) [Poll, Sweep]) ''ABCDEF''
       = Some \<lparr>LastDistance = 0, LastSeen = 3600 * Second, Notified = True\<rparr>"
    by (simp add: monitor_run_def NewMonitorWithDeps_def fetchAndProcess_def monitor_eval
        cleanupAircraftHistory_def cleanupEntries_def time_Before_def time_Add_def
        Minute_def Second_def envFail_def cfgZ_def acA_def acB_def)
  note i1 = C9_trackers_always_notified[of envFail cfgZ "[]" "[Poll, Sweep]"
      "\<lparr>config = cfgA, aircraftHistory = [''ABCDEF'' \<mapsto> trA], errorLog = [], world = []\<rparr>"]
  note i2 = C9_trackers_always_notified[of envFail cfgZ "[]" "[Process acA, Sweep, Poll]"
      "\<lparr>config = cfgA, aircraftHistory = [''ABCDEF'' \<mapsto> trA], errorLog = [], world = []\<rparr>"]
  have c: "allNotified (aircraftHistory (monitor_run envFail (NewMonitorWithDeps cfgZ []) [Poll, Sweep]))"
    using i1 by blast
  have d: "allNotified (aircraftHistory (monitor_run envFail
        \<lparr>config = cfgA, aircraftHistory = [''ABCDEF'' \<mapsto> trA], errorLog = [], world = []\<rparr>
        [Process acA, Sweep, Poll]))"
    using i2 a by simp
  from a b c d e f show ?thesis by blast
qed

section \<open>Properties of the squawk decoder\<close>

lemmas sqk_eval =
  SqkValue_UnmarshalJSON_def unmarshal_string_def unmarshal_int_def Atoi_def isDigit_def
  digitValue_def Let_def

lemma digit_char_value: "d < 10 \<Longrightarrow> of_char (digit_char d) = (48 + d :: nat)"
  by (simp add: digit_char_def)

lemma digitValue_digit_char: "d < 10 \<Longrightarrow> digitValue (digit_char d) = d"
  by (simp add: digitValue_def digit_char_value)

lemma isDigit_digit_char: "d < 10 \<Longrightarrow> isDigit (digit_char d)"
  by (simp add: isDigit_def digit_char_value)

lemma digit_char_not_sign:
  assumes "d < 10"
  shows "digit_char d \<noteq> CHR ''-'' \<and> digit_char d \<noteq> CHR ''+''"
proof -
  have "digit_char d = CHR ''-'' \<Longrightarrow> False"
  proof -
    assume "digit_char d = CHR ''-''"
    then have "of_char (digit_char d) = (45::nat)" by simp
    with digit_char_value[OF assms] show False by simp
  qed
  moreover have "digit_char d = CHR ''+'' \<Longrightarrow> False"
  proof -
    assume "digit_char d = CHR ''+''"
    then have "of_char (digit_char d) = (43::nat)" by simp
    with digit_char_value[OF assms] show False by simp
  qed
  ultimately show ?thesis by blast
qed

lemma digits_nonempty: "digits n \<noteq> []"
  by (subst digits.simps) simp

lemma digits_head_not_sign: "\<exists>c r. digits n = c # r \<and> c \<noteq> CHR ''-'' \<and> c \<noteq> CHR ''+''"
proof (induction n rule: digits.induct)
  case (1 n)
  show ?case
  proof (cases "n < 10")
    case True
    then show ?thesis by (subst digits.simps) (simp add: digit_char_not_sign)
  next
    case False
    with 1 obtain c r where "digits (n div 10) = c # r" "c \<noteq> CHR ''-''" "c \<noteq> CHR ''+''"
      by blast
    with False show ?thesis by (subst digits.simps) simp
  qed
qed

lemma parseUint_snoc:
  "parseUint a (ds @ [c]) =
     (case parseUint a ds of Inl err \<Rightarrow> Inl err | Inr m \<Rightarrow> parseUint m [c])"
  by (induction ds arbitrary: a) (simp_all add: Let_def)

lemma parseUint_digits:
  "n < 2 ^ 64 \<Longrightarrow> parseUint 0 (digits n) = Inr n"
proof (induction n rule: digits.induct)
  case (1 n)
  show ?case
  proof (cases "n < 10")
    case True
    then show ?thesis
      by (subst digits.simps) (simp add: isDigit_digit_char digitValue_digit_char)
  next
    case False
    have "n div 10 < 2 ^ 64" using "1.prems" by simp
    with False 1 have ih: "parseUint 0 (digits (n div 10)) = Inr (n div 10)" by simp
    have d: "n mod 10 < 10" by simp
    have small: "\<not> (n div 10 \<ge> (2 ^ 64 - 1) div 10 + 1)" using "1.prems" by simp
    have n1: "n div 10 * 10 + n mod 10 = n" by simp
    have le: "\<not> n > 2 ^ 64 - 1" using "1.prems" by simp
    show ?thesis
      using False small le
      by (subst digits.simps)
        (simp add: parseUint_snoc ih isDigit_digit_char[OF d] digitValue_digit_char[OF d] n1 Let_def)
  qed
qed

lemma parseUint_not_digits:
  "\<not> list_all isDigit ds \<Longrightarrow> \<exists>err. parseUint a ds = Inl err"
  by (induction ds arbitrary: a) (auto simp: Let_def)

lemma Atoi_Itoa:
  assumes "- (2 ^ 63) \<le> n" "n \<le> 2 ^ 63 - 1"
  shows "Atoi (Itoa n) = Inr n"
proof (cases "n < 0")
  case True
  have "nat (- n) < 2 ^ 64" using assms by simp
  then have p: "parseUint 0 (digits (nat (- n))) = Inr (nat (- n))" by (rule parseUint_digits)
  have r: "\<not> nat (- n) > 2 ^ 63" using assms by simp
  from True p r show ?thesis by (simp add: Atoi_def Itoa_def digits_nonempty)
next
  case False
  obtain c r where cr: "digits (nat n) = c # r" "c \<noteq> CHR ''-''" "c \<noteq> CHR ''+''"
    using digits_head_not_sign by blast
  have "nat n < 2 ^ 64" using assms by simp
  then have "parseUint 0 (digits (nat n)) = Inr (nat n)" by (rule parseUint_digits)
  then have p: "parseUint 0 (c # r) = Inr (nat n)" by (simp only: cr)
  have r: "\<not> nat n \<ge> 2 ^ 63" using assms by simp
  have "Atoi (c # r) = Inr n"
    using False cr(2,3) r by (simp add: Atoi_def p del: parseUint.simps)
  with False cr show ?thesis by (simp add: Itoa_def)
qed

lemma Atoi_not_decimal: "\<not> isDecimalInteger s \<Longrightarrow> \<exists>err. Atoi s = Inl err"
proof (cases s)
  case Nil
  then show ?thesis by (simp add: Atoi_def)
next
  case (Cons c r)
  assume nd: "\<not> isDecimalInteger s"
  show ?thesis
  proof (cases "c = CHR ''-'' \<or> c = CHR ''+''")
    case True
    with nd Cons have "r = [] \<or> \<not> list_all isDigit r" by (auto simp: isDecimalInteger_def)
    then show ?thesis
    proof
      assume "r = []"
      with True Cons show ?thesis by (auto simp: Atoi_def)
    next
      assume "\<not> list_all isDigit r"
      from parseUint_not_digits[OF this, of 0] obtain err where "parseUint 0 r = Inl err" ..
      with True Cons show ?thesis by (auto simp: Atoi_def Let_def)
    qed
  next
    case False
    with nd Cons have "\<not> list_all isDigit (c # r)" by (auto simp: isDecimalInteger_def)
    from parseUint_not_digits[OF this, of 0] obtain err where "parseUint 0 (c # r) = Inl err" ..
    with False Cons show ?thesis by (simp add: Atoi_def Let_def)
  qed
qed

text \<open>
  Claim C5: the squawk field decodes from a JSON string and from a JSON number to the
  same integer: the string \<^verbatim>\<open>"7500"\<close> and the number \<^verbatim>\<open>7500\<close> give 7500, as do the
  decimal digits of every integer of the 64-bit range in either form; the empty string
  gives 0; a non-empty string that is not a decimal integer, such as
  \<^verbatim>\<open>"invalid"\<close>, is a decode error.
\<close>

theorem C5_squawk_decoding:
  "SqkValue_UnmarshalJSON (JString ''7500'') = Inr 7500
   \<and> SqkValue_UnmarshalJSON (JNumber ''7500'') = Inr 7500
   \<and> SqkValue_UnmarshalJSON (JString []) = Inr 0
   \<and> SqkValue_UnmarshalJSON (JString ''invalid'') = Inl ErrSyntax
   \<and> (- (2 ^ 63) \<le> n \<and> n \<le> 2 ^ 63 - 1 \<longrightarrow>
        SqkValue_UnmarshalJSON (JString (Itoa n)) = Inr n
        \<and> SqkValue_UnmarshalJSON (JNumber (Itoa n)) = Inr n)
   \<and> (s \<noteq> [] \<and> \<not> isDecimalInteger s \<longrightarrow>
        (\<exists>err. SqkValue_UnmarshalJSON (JString s) = Inl err))"
proof -
  have 1: "SqkValue_UnmarshalJSON (JString ''7500'') = Inr 7500" by (simp add: sqk_eval)
  have 2: "SqkValue_UnmarshalJSON (JNumber ''7500'') = Inr 7500" by (simp add: sqk_eval)
  have 3: "SqkValue_UnmarshalJSON (JString []) = Inr 0" by (simp add: sqk_eval)
  have 4: "SqkValue_UnmarshalJSON (JString ''invalid'') = Inl ErrSyntax" by (simp add: sqk_eval)
  have 5: "SqkValue_UnmarshalJSON (JString (Itoa n)) = Inr n
        \<and> SqkValue_UnmarshalJSON (JNumber (Itoa n)) = Inr n"
    if "- (2 ^ 63) \<le> n \<and> n \<le> 2 ^ 63 - 1"
  proof -
    have a: "Atoi (Itoa n) = Inr n" using that by (simp add: Atoi_Itoa)
    have "Itoa n \<noteq> []" by (simp add: Itoa_def digits_nonempty)
    with a show ?thesis
      by (simp add: SqkValue_UnmarshalJSON_def unmarshal_string_def unmarshal_int_def)
  qed
  have 6: "\<exists>err. SqkValue_UnmarshalJSON (JString s) = Inl err"
    if "s \<noteq> [] \<and> \<not> isDecimalInteger s"
  proof -
    from that obtain err where "Atoi s = Inl err" using Atoi_not_decimal by blast
    with that show ?thesis
      by (simp add: SqkValue_UnmarshalJSON_def unmarshal_string_def)
  qed
  from 1 2 3 4 5 6 show ?thesis by blast
qed

theorem C5_witness:
  "- (2 ^ 63) \<le> (7600::int) \<and> (7600::int) \<le> 2 ^ 63 - 1
   \<and> SqkValue_UnmarshalJSON (JString ''7600'') = Inr 7600
   \<and> SqkValue_UnmarshalJSON (JNumber ''7600'') = Inr 7600
   \<and> ''invalid'' \<noteq> [] \<and> \<not> isDecimalInteger ''invalid''
   \<and> (\<exists>err. SqkValue_UnmarshalJSON (JString ''invalid'') = Inl err)"
proof -
  have r: "- (2 ^ 63) \<le> (7600::int) \<and> (7600::int) \<le> 2 ^ 63 - 1" by simp
  have i: "Itoa 7600 = ''7600''"
    by (simp add: Itoa_def digits.simps digit_char_def char_of_eq_iff)
  have d: "''invalid'' \<noteq> [] \<and> \<not> isDecimalInteger ''invalid''"
    by (simp add: isDecimalInteger_def isDigit_def)
  note t = C5_squawk_decoding[of 7600 "''invalid''"]
  have a: "SqkValue_UnmarshalJSON (JString (Itoa 7600)) = Inr 7600
        \<and> SqkValue_UnmarshalJSON (JNumber (Itoa 7600)) = Inr 7600"
    by (rule t[THEN conjunct2, THEN conjunct2, THEN conjunct2, THEN conjunct2,
          THEN conjunct1, THEN mp, OF r])
  have b: "\<exists>err. SqkValue_UnmarshalJSON (JString ''invalid'') = Inl err"
    by (rule t[THEN conjunct2, THEN conjunct2, THEN conjunct2, THEN conjunct2,
          THEN conjunct2, THEN mp, OF d])
  from a have a': "SqkValue_UnmarshalJSON (JString ''7600'') = Inr 7600
        \<and> SqkValue_UnmarshalJSON (JNumber ''7600'') = Inr 7600"
    by (simp only: i)
  show ?thesis
    by (intro conjI) (fact r[THEN conjunct1] r[THEN conjunct2] a'[THEN conjunct1]
        a'[THEN conjunct2] d[THEN conjunct1] d[THEN conjunct2] b)+
qed

section \<open>Properties of the feed client\<close>

lemmas fetch_eval =
  login_def tryFormLogin_def tryBasicAuth_def tryURLAuth_def tryNoAuth_def Do_def
  applyFilters_def applyAuth_def isLoginRedirect_def decodeResponse_def Header_Get_def
  Header_Set_def setBrowserHeaders_def NewRequest_def Values_Set_def startsWith_def
  EqualFold_def asciiLower_def Let_def

lemmas example_defs =
  envRedirect_def envLoop_def redirectServer_def alwaysRedirect_def exParse_def
  feedURL_def loginPage_def okResponse_def loginRedirect_def loginAccepted_def
  fSession_def feedRequest_def loginRequest_def NewFetcher_def SetAuth_def SetLocation_def

lemma login_example:
  "login (envRedirect k) (fSession\<lparr>sessionCookie := [], authMethod := []\<rparr>) \<lparr>server = w, sent = s\<rparr>
     = (None, fSession, \<lparr>server = w, sent = s @ [loginRequest]\<rparr>)"
  by (simp add: fetch_eval example_defs)

lemma login_envLoop:
  "login envLoop (fSession\<lparr>sessionCookie := [], authMethod := []\<rparr>) \<lparr>server = w, sent = s\<rparr>
     = (None, fSession, \<lparr>server = w, sent = s @ [loginRequest]\<rparr>)"
  by (simp add: fetch_eval example_defs)

lemma fSession_fields:
  "Username fSession = ''user''" "Password fSession = ''secret''"
  "authMethod fSession = ''session''"
  "BaseURL fSession = ''https://radar.example/AircraftList.json''"
  by (simp_all add: fSession_def SetAuth_def NewFetcher_def)

lemma feed_request_built:
  "applyFilters env fSession (Query feedURL) = Query feedURL"
  "feedURL\<lparr>Query := Query feedURL\<rparr> = feedURL"
  by (simp_all add: applyFilters_def fSession_def SetAuth_def NewFetcher_def)

lemma Do_redirect:
  "w < k \<Longrightarrow> Do (envRedirect k) feedRequest \<lparr>server = w, sent = s\<rparr>
      = (Inr loginRedirect, \<lparr>server = Suc w, sent = s @ [feedRequest]\<rparr>)"
  "\<not> w < k \<Longrightarrow> Do (envRedirect k) feedRequest \<lparr>server = w, sent = s\<rparr>
      = (Inr okResponse, \<lparr>server = Suc w, sent = s @ [feedRequest]\<rparr>)"
  "Do envLoop feedRequest \<lparr>server = w, sent = s\<rparr>
      = (Inr loginRedirect, \<lparr>server = Suc w, sent = s @ [feedRequest]\<rparr>)"
  by (simp_all add: Do_def example_defs fetch_eval)

lemma responses:
  "isLoginRedirect loginRedirect" "\<not> isLoginRedirect okResponse"
  "decodeResponse (envRedirect k) okResponse = Inr emptyList"
  by (simp_all add: isLoginRedirect_def decodeResponse_def Header_Get_def loginRedirect_def
      okResponse_def envRedirect_def startsWith_def)

lemma env_fields:
  "url_Parse (envRedirect k) = exParse" "url_reparse (envRedirect k) = Inr"
  "url_Parse envLoop = exParse" "url_reparse envLoop = Inr"
  "exParse ''https://radar.example/AircraftList.json'' = Inr feedURL"
  by (simp_all add: envRedirect_def envLoop_def exParse_def)

lemma Fetch_redirected:
  assumes "w < k"
  shows "Fetch (envRedirect k) fSession \<lparr>server = w, sent = s\<rparr> =
         Fetch (envRedirect k) fSession \<lparr>server = Suc w, sent = s @ [feedRequest, loginRequest]\<rparr>"
  by (subst Fetch.simps)
    (simp add: fSession_fields env_fields feed_request_built feedRequest_def[symmetric]
      Do_redirect(1)[OF assms] responses login_example)

lemma Fetch_answered:
  assumes "\<not> w < k"
  shows "Fetch (envRedirect k) fSession \<lparr>server = w, sent = s\<rparr> =
         Some (Inr emptyList, fSession, \<lparr>server = Suc w, sent = s @ [feedRequest]\<rparr>)"
  by (subst Fetch.simps)
    (simp add: fSession_fields env_fields feed_request_built feedRequest_def[symmetric]
      Do_redirect(2)[OF assms] responses)

lemma Fetch_envLoop_step:
  "Fetch envLoop fSession \<lparr>server = w, sent = s\<rparr> =
     Fetch envLoop fSession \<lparr>server = Suc w, sent = s @ [feedRequest, loginRequest]\<rparr>"
  by (subst Fetch.simps)
    (simp add: fSession_fields env_fields feed_request_built feedRequest_def[symmetric]
      Do_redirect(3) responses login_envLoop)

lemma Fetch_redirects_from:
  "w \<le> k \<Longrightarrow>
     Fetch (envRedirect k) fSession \<lparr>server = w, sent = s\<rparr> =
       Some (Inr emptyList, fSession,
             \<lparr>server = Suc k,
              sent = s @ concat (replicate (k - w) [feedRequest, loginRequest]) @ [feedRequest]\<rparr>)"
proof (induction "k - w" arbitrary: w s)
  case 0
  then have "w = k" by simp
  then show ?case using Fetch_answered[of k k s] by simp
next
  case (Suc d)
  then have lt: "w < k" and d: "d = k - Suc w" and le: "Suc w \<le> k" by simp_all
  have rep: "k - w = Suc (k - Suc w)" using lt by simp
  show ?case
    by (simp only: Fetch_redirected[OF lt] Suc.hyps(1)[OF d le] rep replicate_Suc concat.simps
        append_assoc append_Cons append_Nil)
qed

lemma Fetch_envLoop_None: "Fetch envLoop fSession n = None"
proof (rule ccontr)
  assume "Fetch envLoop fSession n \<noteq> None"
  then obtain y where y: "Fetch envLoop fSession n = Some y" by auto
  have "envLoop = envLoop \<longrightarrow> fSession = fSession \<longrightarrow> False"
  proof (rule Fetch.raw_induct[where P = "\<lambda>env f n y. env = envLoop \<longrightarrow> f = fSession \<longrightarrow> False",
        OF _ y])
    fix Fetch' :: "nat FetchEnv \<Rightarrow> Fetcher \<Rightarrow> nat net
        \<Rightarrow> ((fetch_error + AircraftList) \<times> Fetcher \<times> nat net) option"
    fix env f n y
    show "env = envLoop \<longrightarrow> f = fSession \<longrightarrow> False"
      if IH: "\<And>env f n y. Fetch' env f n = Some y \<Longrightarrow> env = envLoop \<longrightarrow> f = fSession \<longrightarrow> False"
        and body: "(case if (Username f \<noteq> [] \<or> Password f \<noteq> []) \<and> authMethod f = []
              then login env f n else (None, f, n) of
           (None, f, n) \<Rightarrow>
             (case url_Parse env (BaseURL f) of
                Inl e \<Rightarrow> Some (Inl (ErrInvalidBaseURL e), f, n)
              | Inr u \<Rightarrow>
                  (case url_reparse env (u\<lparr>Query := applyFilters env f (Query u)\<rparr>) of
                     Inl e \<Rightarrow> Some (Inl (ErrNewRequest e), f, n)
                   | Inr ru \<Rightarrow>
                       (case Do env (applyAuth f (NewRequest ''GET'' ru)) n of
                          (Inl e, n) \<Rightarrow> Some (Inl (ErrTransport e), f, n)
                        | (Inr resp, n) \<Rightarrow>
                            if isLoginRedirect resp
                            then (case login env (f\<lparr>sessionCookie := [], authMethod := []\<rparr>) n of
                                    (None, f, n) \<Rightarrow> Fetch' env f n
                                  | (Some err, f, n) \<Rightarrow>
                                      Some (Inl (ErrReAuthenticationFailed err), f, n))
                            else Some (decodeResponse env resp, f, n))))
         | (Some err, f, n) \<Rightarrow> Some (Inl (ErrAuthenticationFailed err), f, n)) = Some y"
    proof (intro impI)
      assume e: "env = envLoop" and f: "f = fSession"
      obtain w s where n: "n = \<lparr>server = w, sent = s\<rparr>" by (cases n) auto
      from body have "Fetch' envLoop fSession
          \<lparr>server = Suc w, sent = s @ [feedRequest, loginRequest]\<rparr> = Some y"
        unfolding e f n
        by (simp add: fSession_fields env_fields feed_request_built feedRequest_def[symmetric]
            Do_redirect(3) responses login_envLoop)
      from IH[OF this] show False by simp
    qed
  qed
  then show False by simp
qed

lemma Fetch_login_redirect:
  assumes "(if (Username f \<noteq> [] \<or> Password f \<noteq> []) \<and> authMethod f = []
            then login env f n else (None, f, n)) = (None, f1, n1)"
    and "url_Parse env (BaseURL f1) = Inr u"
    and "url_reparse env (u\<lparr>Query := applyFilters env f1 (Query u)\<rparr>) = Inr ru"
    and "Do env (applyAuth f1 (NewRequest ''GET'' ru)) n1 = (Inr resp, n2)"
    and "(StatusCode resp = 302 \<or> StatusCode resp = 301)
         \<and> Contains (Header_Get resp ''Location'') ''login.php''"
  shows "Fetch env f n =
          (case login env (f1\<lparr>sessionCookie := [], authMethod := []\<rparr>) n2 of
             (Some err, f3, n3) \<Rightarrow> Some (Inl (ErrReAuthenticationFailed err), f3, n3)
           | (None, f3, n3) \<Rightarrow> Fetch env f3 n3)"
  using assms by (subst Fetch.simps) (simp add: isLoginRedirect_def)

lemma login_needs_both:
  "Username f = [] \<or> Password f = [] \<Longrightarrow> login env f n = (Some ErrCredentialsRequired, f, n)"
  by (simp add: login_def)

lemma Fetch_login_failure:
  assumes "(Username f \<noteq> [] \<or> Password f \<noteq> []) \<and> authMethod f = []"
    and "login env f n = (Some err, f', n')"
  shows "Fetch env f n = Some (Inl (ErrAuthenticationFailed err), f', n')"
  using assms by (subst Fetch.simps) simp

lemma Fetch_one_credential:
  assumes "authMethod f = []"
    and "Username f = [] \<and> Password f \<noteq> [] \<or> Username f \<noteq> [] \<and> Password f = []"
  shows "Fetch env f n = Some (Inl (ErrAuthenticationFailed ErrCredentialsRequired), f, n)"
proof -
  have "login env f n = (Some ErrCredentialsRequired, f, n)"
    using assms(2) by (auto simp: login_needs_both)
  moreover have "(Username f \<noteq> [] \<or> Password f \<noteq> []) \<and> authMethod f = []"
    using assms by auto
  ultimately show ?thesis by (rule Fetch_login_failure[rotated])
qed

lemma FetchRepeated_one_credential:
  assumes "authMethod f = []"
    and "Username f = [] \<and> Password f \<noteq> [] \<or> Username f \<noteq> [] \<and> Password f = []"
  shows "FetchRepeated env k f n =
           Some (replicate k (Inl (ErrAuthenticationFailed ErrCredentialsRequired)), f, n)"
  by (induction k) (simp_all add: Fetch_one_credential[OF assms])

lemma applyFilters_parameters:
  "applyFilters env f q ''fTypQ'' =
     (if AircraftType f \<noteq> [] then Some [AircraftType f] else q ''fTypQ'')"
  "applyFilters env f q ''fAltL'' =
     (if MinAltitude f > 0 then Some [Itoa (MinAltitude f)] else q ''fAltL'')"
  "applyFilters env f q ''fAltU'' =
     (if MaxAltitude f > 0 then Some [Itoa (MaxAltitude f)] else q ''fAltU'')"
  "applyFilters env f q ''fMilQ'' = (if Military f then Some [''1''] else q ''fMilQ'')"
  "applyFilters env f q ''fOpQ'' =
     (if Operator f \<noteq> [] then Some [Operator f] else q ''fOpQ'')"
  "applyFilters env f q ''fCallQ'' =
     (if FlightNumber f \<noteq> [] then Some [FlightNumber f] else q ''fCallQ'')"
  "applyFilters env f q ''lat'' =
     (if UserLat f \<noteq> 0 \<and> UserLong f \<noteq> 0 then Some [FormatFloat env (UserLat f)]
      else q ''lat'')"
  "applyFilters env f q ''lng'' =
     (if UserLat f \<noteq> 0 \<and> UserLong f \<noteq> 0 then Some [FormatFloat env (UserLong f)]
      else q ''lng'')"
  "applyFilters env f q ''fDstU'' =
     (if UserLat f \<noteq> 0 \<and> UserLong f \<noteq> 0 \<and> MaxDistance f > 0
      then Some [FormatFloat env (MaxDistance f)] else q ''fDstU'')"
  by (simp_all add: applyFilters_def Values_Set_def Let_def)

text \<open>
  Claim C1, as the specification states it, fails: nothing in \<^verbatim>\<open>Fetch\<close> counts the
  retries. With a server that redirects the first two feed requests of one call to the
  login page and accepts every form login, the call logs in again after each redirect
  and returns the aircraft list from the third feed request; the second redirect is not
  an error.
\<close>

theorem C1_counterexample:
  "Fetch (envRedirect 2) fSession \<lparr>server = 0, sent = []\<rparr> =
     Some (Inr emptyList, fSession,
           \<lparr>server = 3,
            sent = [feedRequest, loginRequest, feedRequest, loginRequest, feedRequest]\<rparr>)"
proof -
  have "concat (replicate (2 - 0) [feedRequest, loginRequest]) =
      [feedRequest, loginRequest, feedRequest, loginRequest]"
    by (simp add: numeral_2_eq_2)
  then show ?thesis using Fetch_redirects_from[of 0 2 "[]"] by simp
qed

text \<open>
  Claim C1, amended: when the response to the feed request is a redirect (302 or 301)
  whose \<^verbatim>\<open>Location\<close> contains \<^verbatim>\<open>login.php\<close>, the client clears its session cookie
  and its authentication method and runs \<^verbatim>\<open>login\<close> again; if that fails, the call
  returns the re-authentication error; if it succeeds, the call starts over as a new
  call of \<^verbatim>\<open>Fetch\<close>, in which a further redirect to the login page is handled in the
  same way. The number of retries within one call is not bounded: a server that
  redirects \<open>k\<close> times makes the client log in \<open>k\<close> times and send \<open>k + 1\<close>
  feed requests, and with a server that redirects every feed request the call never
  returns.
\<close>

theorem C1_redirect_to_login:
  "((if (Username f \<noteq> [] \<or> Password f \<noteq> []) \<and> authMethod f = []
     then login env f n else (None, f, n)) = (None, f1, n1)
    \<and> url_Parse env (BaseURL f1) = Inr u
    \<and> url_reparse env (u\<lparr>Query := applyFilters env f1 (Query u)\<rparr>) = Inr ru
    \<and> Do env (applyAuth f1 (NewRequest ''GET'' ru)) n1 = (Inr resp, n2)
    \<and> (StatusCode resp = 302 \<or> StatusCode resp = 301)
    \<and> Contains (Header_Get resp ''Location'') ''login.php''
    \<longrightarrow> Fetch env f n =
          (case login env (f1\<lparr>sessionCookie := [], authMethod := []\<rparr>) n2 of
             (Some err, f3, n3) \<Rightarrow> Some (Inl (ErrReAuthenticationFailed err), f3, n3)
           | (None, f3, n3) \<Rightarrow> Fetch env f3 n3))
   \<and> Fetch (envRedirect k) fSession \<lparr>server = 0, sent = []\<rparr> =
        Some (Inr emptyList, fSession,
              \<lparr>server = Suc k,
               sent = concat (replicate k [feedRequest, loginRequest]) @ [feedRequest]\<rparr>)
   \<and> Fetch envLoop fSession \<lparr>server = 0, sent = []\<rparr> = None"
proof -
  have a: "Fetch (envRedirect k) fSession \<lparr>server = 0, sent = []\<rparr> =
        Some (Inr emptyList, fSession,
              \<lparr>server = Suc k,
               sent = concat (replicate k [feedRequest, loginRequest]) @ [feedRequest]\<rparr>)"
    using Fetch_redirects_from[of 0 k "[]"] by simp
  show ?thesis
    using Fetch_login_redirect[of f env n f1 n1 u ru resp n2] a Fetch_envLoop_None
    by (intro conjI impI) (simp_all only: simp_thms)
qed

theorem C1_witness:
  "(if (Username fSession \<noteq> [] \<or> Password fSession \<noteq> []) \<and> authMethod fSession = []
    then login (envRedirect 1) fSession \<lparr>server = 0, sent = []\<rparr>
    else (None, fSession, \<lparr>server = 0, sent = []\<rparr>)) = (None, fSession, \<lparr>server = 0, sent = []\<rparr>)
   \<and> url_Parse (envRedirect 1) (BaseURL fSession) = Inr feedURL
   \<and> url_reparse (envRedirect 1)
        (feedURL\<lparr>Query := applyFilters (envRedirect 1) fSession (Query feedURL)\<rparr>) = Inr feedURL
   \<and> Do (envRedirect 1) (applyAuth fSession (NewRequest ''GET'' feedURL)) \<lparr>server = 0, sent = []\<rparr>
        = (Inr loginRedirect, \<lparr>server = 1, sent = [feedRequest]\<rparr>)
   \<and> (StatusCode loginRedirect = 302 \<or> StatusCode loginRedirect = 301)
   \<and> Contains (Header_Get loginRedirect ''Location'') ''login.php''
   \<and> login (envRedirect 1) (fSession\<lparr>sessionCookie := [], authMethod := []\<rparr>)
         \<lparr>server = 1, sent = [feedRequest]\<rparr>
        = (None, fSession, \<lparr>server = 1, sent = [feedRequest, loginRequest]\<rparr>)
   \<and> Fetch (envRedirect 1) fSession \<lparr>server = 0, sent = []\<rparr> =
        Fetch (envRedirect 1) fSession \<lparr>server = 1, sent = [feedRequest, loginRequest]\<rparr>
   \<and> Fetch (envRedirect 1) fSession \<lparr>server = 0, sent = []\<rparr> =
        Some (Inr emptyList, fSession,
              \<lparr>server = 2, sent = [feedRequest, loginRequest, feedRequest]\<rparr>)"
proof -
  let ?n0 = "\<lparr>server = 0::nat, sent = []\<rparr>"
  have h1: "(if (Username fSession \<noteq> [] \<or> Password fSession \<noteq> []) \<and> authMethod fSession = []
    then login (envRedirect 1) fSession ?n0
    else (None, fSession, ?n0)) = (None, fSession, ?n0)"
    by (simp add: fSession_fields)
  have h2: "url_Parse (envRedirect 1) (BaseURL fSession) = Inr feedURL"
    by (simp add: fSession_fields env_fields)
  have h3: "url_reparse (envRedirect 1)
        (feedURL\<lparr>Query := applyFilters (envRedirect 1) fSession (Query feedURL)\<rparr>) = Inr feedURL"
    by (simp add: env_fields feed_request_built)
  have h4: "Do (envRedirect 1) (applyAuth fSession (NewRequest ''GET'' feedURL)) ?n0
        = (Inr loginRedirect, \<lparr>server = 1, sent = [feedRequest]\<rparr>)"
    using Do_redirect(1)[of 0 1 "[]"] by (simp add: feedRequest_def)
  have h5: "StatusCode loginRedirect = 302 \<or> StatusCode loginRedirect = 301"
    by (simp add: loginRedirect_def)
  have h6: "Contains (Header_Get loginRedirect ''Location'') ''login.php''"
    using responses(1) by (simp add: isLoginRedirect_def)
  have l: "login (envRedirect 1) (fSession\<lparr>sessionCookie := [], authMethod := []\<rparr>)
         \<lparr>server = 1, sent = [feedRequest]\<rparr>
        = (None, fSession, \<lparr>server = 1, sent = [feedRequest, loginRequest]\<rparr>)"
    using login_example[of 1 1 "[feedRequest]"] by simp
  note t = C1_redirect_to_login[of fSession "envRedirect 1" ?n0 fSession ?n0 feedURL feedURL
      loginRedirect "\<lparr>server = 1, sent = [feedRequest]\<rparr>" 1]
  have step: "Fetch (envRedirect 1) fSession ?n0 =
      (case login (envRedirect 1) (fSession\<lparr>sessionCookie := [], authMethod := []\<rparr>)
              \<lparr>server = 1, sent = [feedRequest]\<rparr> of
         (Some err, f3, n3) \<Rightarrow> Some (Inl (ErrReAuthenticationFailed err), f3, n3)
       | (None, f3, n3) \<Rightarrow> Fetch (envRedirect 1) f3 n3)"
    by (rule t[THEN conjunct1, THEN mp,
          OF conjI[OF h1 conjI[OF h2 conjI[OF h3 conjI[OF h4 conjI[OF h5 h6]]]]]])
  have r1: "Fetch (envRedirect 1) fSession ?n0 =
        Fetch (envRedirect 1) fSession \<lparr>server = 1, sent = [feedRequest, loginRequest]\<rparr>"
    using step by (simp only: l prod.case option.case)
  have r2: "Fetch (envRedirect 1) fSession ?n0 =
        Some (Inr emptyList, fSession,
              \<lparr>server = 2, sent = [feedRequest, loginRequest, feedRequest]\<rparr>)"
    using t[THEN conjunct2, THEN conjunct1] by (simp add: numeral_2_eq_2)
  show ?thesis
    by (intro conjI) (fact h1 h2 h3 h4 h5 h6 l r1 r2)+
qed

text \<open>
  Claim C10: \<^verbatim>\<open>login\<close> fails at once unless both the user name and the password are
  non-empty, while \<^verbatim>\<open>Fetch\<close> runs \<^verbatim>\<open>login\<close> as soon as one of the two is non-empty
  and no authentication method is established, and returns its failure as an
  authentication error. So with exactly one of the two configured, \<^verbatim>\<open>Fetch\<close> returns
  the authentication error without sending any request and leaves the fetcher as it
  was, and every further call does the same.
\<close>

theorem C10_one_credential:
  "(Username f = [] \<or> Password f = [] \<longrightarrow>
      login env f n = (Some ErrCredentialsRequired, f, n))
   \<and> ((Username f \<noteq> [] \<or> Password f \<noteq> []) \<and> authMethod f = []
        \<and> login env f n = (Some err, f', n') \<longrightarrow>
      Fetch env f n = Some (Inl (ErrAuthenticationFailed err), f', n'))
   \<and> (authMethod f = []
        \<and> (Username f = [] \<and> Password f \<noteq> [] \<or> Username f \<noteq> [] \<and> Password f = []) \<longrightarrow>
      Fetch env f n = Some (Inl (ErrAuthenticationFailed ErrCredentialsRequired), f, n)
      \<and> FetchRepeated env k f n =
          Some (replicate k (Inl (ErrAuthenticationFailed ErrCredentialsRequired)), f, n))"
  using login_needs_both[of f env n] Fetch_login_failure[of f env n err f' n']
    Fetch_one_credential[of f env n] FetchRepeated_one_credential[of f env k n]
  by (intro conjI impI) (simp_all only: simp_thms)

theorem C10_witness:
  "Username fUserOnly = ''user'' \<and> Password fUserOnly = [] \<and> authMethod fUserOnly = []
   \<and> login (envRedirect 0) fUserOnly \<lparr>server = 0, sent = []\<rparr>
        = (Some ErrCredentialsRequired, fUserOnly, \<lparr>server = 0, sent = []\<rparr>)
   \<and> Fetch (envRedirect 0) fUserOnly \<lparr>server = 0, sent = []\<rparr>
        = Some (Inl (ErrAuthenticationFailed ErrCredentialsRequired), fUserOnly,
                \<lparr>server = 0, sent = []\<rparr>)
   \<and> FetchRepeated (envRedirect 0) 3 fUserOnly \<lparr>server = 0, sent = []\<rparr>
        = Some ([Inl (ErrAuthenticationFailed ErrCredentialsRequired),
                 Inl (ErrAuthenticationFailed ErrCredentialsRequired),
                 Inl (ErrAuthenticationFailed ErrCredentialsRequired)], fUserOnly,
                \<lparr>server = 0, sent = []\<rparr>)"
proof -
  let ?n0 = "\<lparr>server = 0::nat, sent = []\<rparr>"
  have u: "Username fUserOnly = ''user''" "Password fUserOnly = []" "authMethod fUserOnly = []"
    by (simp_all add: fUserOnly_def SetAuth_def NewFetcher_def)
  have h1: "Username fUserOnly = [] \<or> Password fUserOnly = []" by (simp add: u)
  have h2: "Username fUserOnly \<noteq> [] \<or> Password fUserOnly \<noteq> []" by (simp add: u)
  have h3: "authMethod fUserOnly = []" by (simp add: u)
  have h4: "Username fUserOnly = [] \<and> Password fUserOnly \<noteq> []
       \<or> Username fUserOnly \<noteq> [] \<and> Password fUserOnly = []" by (simp add: u)
  note t = C10_one_credential[of fUserOnly "envRedirect 0" ?n0 ErrCredentialsRequired
      fUserOnly ?n0 3]
  have r1: "login (envRedirect 0) fUserOnly ?n0 = (Some ErrCredentialsRequired, fUserOnly, ?n0)"
    by (rule t[THEN conjunct1, THEN mp, OF h1])
  have r2: "Fetch (envRedirect 0) fUserOnly ?n0
        = Some (Inl (ErrAuthenticationFailed ErrCredentialsRequired), fUserOnly, ?n0)"
    by (rule t[THEN conjunct2, THEN conjunct1, THEN mp, OF conjI[OF h2 conjI[OF h3 r1]]])
  have r3: "FetchRepeated (envRedirect 0) 3 fUserOnly ?n0
        = Some (replicate 3 (Inl (ErrAuthenticationFailed ErrCredentialsRequired)), fUserOnly, ?n0)"
    by (rule t[THEN conjunct2, THEN conjunct2, THEN mp, OF conjI[OF h3 h4], THEN conjunct2])
  have r3': "FetchRepeated (envRedirect 0) 3 fUserOnly ?n0
        = Some ([Inl (ErrAuthenticationFailed ErrCredentialsRequired),
                 Inl (ErrAuthenticationFailed ErrCredentialsRequired),
                 Inl (ErrAuthenticationFailed ErrCredentialsRequired)], fUserOnly, ?n0)"
    using r3 by (simp add: numeral_3_eq_3)
  show ?thesis
    by (intro conjI) (fact u r1 r2 r3')+
qed

lemma fMeridian_fields:
  "UserLat fMeridian = 51.5" "UserLong fMeridian = 0" "MaxDistance fMeridian = 100"
  "Username fMeridian = []" "Password fMeridian = []" "authMethod fMeridian = []"
  "BaseURL fMeridian = ''https://radar.example/AircraftList.json''"
  by (simp_all add: fMeridian_def SetLocation_def NewFetcher_def)

lemma applyFilters_fMeridian: "applyFilters env fMeridian Map.empty = Map.empty"
  by (simp add: applyFilters_def fMeridian_def SetLocation_def NewFetcher_def)

text \<open>
  Claim C4 at an observer on the prime meridian (latitude 51.5, longitude 0, maximum
  distance 100): the location is not the zero location, and the monitor computes
  distances from it, but \<^verbatim>\<open>Fetch\<close> tests \<^verbatim>\<open>UserLat != 0.0 && UserLong != 0.0\<close> and
  so sets none of \<^verbatim>\<open>lat\<close>, \<^verbatim>\<open>lng\<close> and \<^verbatim>\<open>fDstU\<close>: the request goes out with an empty
  query.
\<close>

theorem C4_location_on_meridian_omitted:
  "UserLat fMeridian = 51.5 \<and> UserLong fMeridian = 0 \<and> MaxDistance fMeridian = 100
   \<and> applyFilters env fMeridian q ''lat'' = q ''lat''
   \<and> applyFilters env fMeridian q ''lng'' = q ''lng''
   \<and> applyFilters env fMeridian q ''fDstU'' = q ''fDstU''
   \<and> applyFilters env fMeridian Map.empty = Map.empty
   \<and> Fetch (envRedirect 0) fMeridian \<lparr>server = 0, sent = []\<rparr> =
        Some (Inr emptyList, fMeridian,
              \<lparr>server = 1, sent = [setBrowserHeaders (NewRequest ''GET'' feedURL)]\<rparr>)
   \<and> Query (URL (setBrowserHeaders (NewRequest ''GET'' feedURL))) = Map.empty
   \<and> calculateDistance cfgA acLat acLong = CalculateDistance 51.5 0 acLat acLong"
proof -
  have 1: "UserLat fMeridian = 51.5" "UserLong fMeridian = 0" "MaxDistance fMeridian = 100"
    by (simp_all add: fMeridian_fields)
  have 2: "applyFilters env fMeridian q ''lat'' = q ''lat''"
    "applyFilters env fMeridian q ''lng'' = q ''lng''"
    "applyFilters env fMeridian q ''fDstU'' = q ''fDstU''"
    by (simp_all add: applyFilters_parameters fMeridian_fields)
  note 3 = applyFilters_fMeridian[of env]
  have q: "Query feedURL = Map.empty" "feedURL\<lparr>Query := Map.empty\<rparr> = feedURL"
    by (simp_all add: feedURL_def)
  have req: "applyAuth fMeridian (NewRequest ''GET'' feedURL) =
      setBrowserHeaders (NewRequest ''GET'' feedURL)"
    by (simp add: applyAuth_def fMeridian_fields)
  have answer: "Do (envRedirect 0) (setBrowserHeaders (NewRequest ''GET'' feedURL))
        \<lparr>server = 0, sent = []\<rparr> =
      (Inr okResponse, \<lparr>server = 1, sent = [setBrowserHeaders (NewRequest ''GET'' feedURL)]\<rparr>)"
    by (simp add: Do_def envRedirect_def redirectServer_def setBrowserHeaders_def Header_Set_def
        NewRequest_def)
  have 4: "Fetch (envRedirect 0) fMeridian \<lparr>server = 0, sent = []\<rparr> =
        Some (Inr emptyList, fMeridian,
              \<lparr>server = 1, sent = [setBrowserHeaders (NewRequest ''GET'' feedURL)]\<rparr>)"
    by (subst Fetch.simps) (simp add: fMeridian_fields env_fields applyFilters_fMeridian q req answer responses)
  have 5: "Query (URL (setBrowserHeaders (NewRequest ''GET'' feedURL))) = Map.empty"
    by (simp add: setBrowserHeaders_def Header_Set_def NewRequest_def feedURL_def)
  have 6: "calculateDistance cfgA acLat acLong = CalculateDistance 51.5 0 acLat acLong"
    by (simp add: calculateDistance_def cfgA_def)
  show ?thesis
    by (intro conjI) (fact 1 2 3 4 5 6)+
qed

end
